theory Spec2Isabelle
  imports Main "HOL-Library.Sublist" "HOL-Library.AList"
begin

section \<open>Values, errors and Python string operations\<close>

text \<open>
  JSON values as the clients exchange them. A Python \<open>dict\<close> keeps insertion order, so an
  object is an association list; \<open>AList.update\<close> is Python's item assignment (the key keeps
  its position, a new key goes to the end).
\<close>

datatype json =
    JNull
  | JBool bool
  | JInt int
  | JStr string
  | JList "json list"
  | JObj "(string \<times> json) list"

type_synonym dict = "(string \<times> json) list"

text \<open>Every exception the modelled code can raise or let through.\<close>

datatype py_error =
    IndexError
  | KeyError string
  | AssertionError
  | ValueError string
  | TypeError string
  | HTTPStatusError nat string
  | TransportError string
  | JSONDecodeError
  | ValidationError string
  | OtherError string

text \<open>Python truthiness, as used by \<open>x or y\<close>, \<open>if x\<close> and \<open>not x\<close>.\<close>

fun truthy :: "json \<Rightarrow> bool" where
  "truthy JNull = False"
| "truthy (JBool b) = b"
| "truthy (JInt i) = (i \<noteq> 0)"
| "truthy (JStr s) = (s \<noteq> [])"
| "truthy (JList xs) = (xs \<noteq> [])"
| "truthy (JObj kvs) = (kvs \<noteq> [])"

text \<open>\<open>s.startswith(p)\<close>, and \<open>s.startswith((p1, p2, ...))\<close> with a tuple of prefixes.\<close>

definition startswith :: "string \<Rightarrow> string \<Rightarrow> bool" where
  "startswith s p = prefix p s"

definition startswith_any :: "string \<Rightarrow> string list \<Rightarrow> bool" where
  "startswith_any s ps = list_ex (startswith s) ps"

text \<open>
  \<open>s.split(sep)\<close> for a non-empty separator: the string is scanned from the left, every
  occurrence of \<open>sep\<close> found closes the current piece and the scan resumes after it.
  The result always has at least one piece.
\<close>

fun str_split :: "string \<Rightarrow> string \<Rightarrow> string list" where
  "str_split sep [] = [[]]"
| "str_split sep (c # cs) =
     (if sep \<noteq> [] \<and> prefix sep (c # cs)
      then [] # str_split sep (drop (length sep) (c # cs))
      else (case str_split sep cs of
              [] \<Rightarrow> [[c]]
            | p # ps \<Rightarrow> (c # p) # ps))"

text \<open>Python raises \<open>ValueError\<close> on an empty separator.\<close>

definition py_split :: "string \<Rightarrow> string \<Rightarrow> py_error + string list" where
  "py_split s sep =
     (if sep = [] then Inl (ValueError ''empty separator'') else Inr (str_split sep s))"

text \<open>\<open>xs[i]\<close> for a non-negative index: out of range raises \<open>IndexError\<close>.\<close>

definition py_index :: "'a list \<Rightarrow> nat \<Rightarrow> py_error + 'a" where
  "py_index xs i = (if i < length xs then Inr (xs ! i) else Inl IndexError)"

section \<open>Effects: the trace of what leaves the process\<close>

datatype http_method = GET | POST | PUT | DELETE

text \<open>
  The body of an outgoing request as \<open>httpx\<close> is asked to encode it: the keyword \<open>json=\<close>
  serialises the payload as a JSON document, the keyword \<open>data=\<close> form-encodes it.
\<close>

datatype payload = NoBody | JsonBody json | FormData json

record request =
  req_method :: http_method
  req_url :: string
  req_headers :: "(string \<times> string) list"
  req_params :: "dict option"
  req_body :: payload

text \<open>
  An upstream answer: the status line, the body text, and what \<open>response.json()\<close> makes
  of the body (nothing when the body does not decode).
\<close>

record response =
  status_code :: nat
  body_text :: string
  body_json :: "json option"

text \<open>
  Everything observable from outside: HTTP requests sent, calls of the synchronous storage
  SDK, component look-ups, calls of the generative capability, and log records.
\<close>

datatype event =
    Http request
  | SyncConfigurationDetail string string
  | ComponentLookup string
  | DialectLookup
  | Generate string
  | RetrieveByTypes "string list"
  | RetrieveByIds "string list"
  | LogInfo string
  | LogException string py_error

type_synonym trace = "event list"

type_synonym 'a io = "trace \<Rightarrow> (py_error + 'a) \<times> trace"

definition return_io :: "'a \<Rightarrow> 'a io" where
  "return_io x w = (Inr x, w)"

definition raise_io :: "py_error \<Rightarrow> 'a io" where
  "raise_io e w = (Inl e, w)"

definition lift_io :: "py_error + 'a \<Rightarrow> 'a io" where
  "lift_io r w = (r, w)"

definition emit :: "event \<Rightarrow> unit io" where
  "emit ev w = (Inr (), w @ [ev])"

definition bind_io :: "'a io \<Rightarrow> ('a \<Rightarrow> 'b io) \<Rightarrow> 'b io" where
  "bind_io m f w = (case m w of (Inl e, w') \<Rightarrow> (Inl e, w') | (Inr x, w') \<Rightarrow> f x w')"

text \<open>\<open>try: m  except Exception as e: h e\<close>.\<close>

definition catch_io :: "'a io \<Rightarrow> (py_error \<Rightarrow> 'a io) \<Rightarrow> 'a io" where
  "catch_io m h w = (case m w of (Inl e, w') \<Rightarrow> h e w' | (Inr x, w') \<Rightarrow> (Inr x, w'))"

text \<open>The HTTP requests of a trace, in the order they were sent.\<close>

fun http_requests :: "trace \<Rightarrow> request list" where
  "http_requests [] = []"
| "http_requests (Http r # evs) = r # http_requests evs"
| "http_requests (ev # evs) = http_requests evs"

section \<open>The raw transport client\<close>

record RawKeboolaClient =
  base_api_url :: string
  headers :: "(string \<times> string) list"

text \<open>\<open>a | b\<close> on dictionaries: the items of \<open>a\<close>, updated with those of \<open>b\<close> in order.\<close>

definition dict_union :: "('k \<times> 'v) list \<Rightarrow> ('k \<times> 'v) list \<Rightarrow> ('k \<times> 'v) list" where
  "dict_union a b = fold (\<lambda>kv. AList.update (fst kv) (snd kv)) b a"

text \<open>\<open>d or {}\<close> for an optional dictionary.\<close>

definition or_empty :: "('k \<times> 'v) list option \<Rightarrow> ('k \<times> 'v) list" where
  "or_empty d = (case d of None \<Rightarrow> [] | Some kvs \<Rightarrow> (if kvs \<noteq> [] then kvs else []))"

definition RawKeboolaClient_init ::
  "string \<Rightarrow> string \<Rightarrow> (string \<times> string) list option \<Rightarrow> RawKeboolaClient" where
  "RawKeboolaClient_init url api_token hdrs =
     (let h0 = [(''X-StorageApi-Token'', api_token),
                (''Content-Type'', ''application/json''),
                (''Accept-encoding'', ''gzip'')]
      in \<lparr> base_api_url = url,
           headers = (case hdrs of
                        None \<Rightarrow> h0
                      | Some h \<Rightarrow> (if h \<noteq> [] then dict_union h0 h else h0)) \<rparr>)"

text \<open>\<open>httpx\<close>: a status is a success exactly when it is 2xx.\<close>

definition is_success :: "nat \<Rightarrow> bool" where
  "is_success code = (200 \<le> code \<and> code \<le> 299)"

text \<open>
  \<open>response.raise_for_status()\<close>: any status that is not a success raises an
  \<open>HTTPStatusError\<close> holding the response (its status code and body).
\<close>

definition raise_for_status :: "response \<Rightarrow> py_error + unit" where
  "raise_for_status r =
     (if is_success (status_code r) then Inr ()
      else Inl (HTTPStatusError (status_code r) (body_text r)))"

definition response_json :: "response \<Rightarrow> py_error + json" where
  "response_json r = (case body_json r of None \<Rightarrow> Inl JSONDecodeError | Some j \<Rightarrow> Inr j)"

text \<open>
  One request through a fresh \<open>httpx.AsyncClient\<close>: the request is recorded, the network
  (a function of the history and the request) either fails in transport or answers.
\<close>

definition send :: "(trace \<Rightarrow> request \<Rightarrow> py_error + response) \<Rightarrow> request \<Rightarrow> response io" where
  "send net req w = (net w req, w @ [Http req])"

definition finish :: "response \<Rightarrow> json io" where
  "finish r = bind_io (lift_io (raise_for_status r)) (\<lambda>_. lift_io (response_json r))"

definition raw_get ::
  "(trace \<Rightarrow> request \<Rightarrow> py_error + response) \<Rightarrow> RawKeboolaClient \<Rightarrow> string \<Rightarrow> dict option
     \<Rightarrow> (string \<times> string) list option \<Rightarrow> json io" where
  "raw_get net self endpoint params hdrs =
     (let h = dict_union (headers self) (or_empty hdrs)
      in bind_io (send net \<lparr> req_method = GET,
                              req_url = base_api_url self @ ''/'' @ endpoint,
                              req_headers = h,
                              req_params = params,
                              req_body = NoBody \<rparr>) finish)"

definition raw_post ::
  "(trace \<Rightarrow> request \<Rightarrow> py_error + response) \<Rightarrow> RawKeboolaClient \<Rightarrow> string \<Rightarrow> dict option
     \<Rightarrow> (string \<times> string) list option \<Rightarrow> json io" where
  "raw_post net self endpoint data hdrs =
     (let h = dict_union (headers self) (or_empty hdrs)
      in bind_io (send net \<lparr> req_method = POST,
                              req_url = base_api_url self @ ''/'' @ endpoint,
                              req_headers = h,
                              req_params = None,
                              req_body = JsonBody (JObj (or_empty data)) \<rparr>) finish)"

definition raw_put ::
  "(trace \<Rightarrow> request \<Rightarrow> py_error + response) \<Rightarrow> RawKeboolaClient \<Rightarrow> string \<Rightarrow> dict option
     \<Rightarrow> (string \<times> string) list option \<Rightarrow> json io" where
  "raw_put net self endpoint data hdrs =
     (let h = dict_union (headers self) (or_empty hdrs)
      in bind_io (send net \<lparr> req_method = PUT,
                              req_url = base_api_url self @ ''/'' @ endpoint,
                              req_headers = h,
                              req_params = None,
                              req_body = FormData (JObj (or_empty data)) \<rparr>) finish)"

definition raw_delete ::
  "(trace \<Rightarrow> request \<Rightarrow> py_error + response) \<Rightarrow> RawKeboolaClient \<Rightarrow> string
     \<Rightarrow> (string \<times> string) list option \<Rightarrow> json io" where
  "raw_delete net self endpoint hdrs =
     (let h = dict_union (headers self) (or_empty hdrs)
      in bind_io (send net \<lparr> req_method = DELETE,
                              req_url = base_api_url self @ ''/'' @ endpoint,
                              req_headers = h,
                              req_params = None,
                              req_body = NoBody \<rparr>) finish)"

section \<open>Service clients\<close>

record KeboolaServiceClient =
  raw_client :: RawKeboolaClient

definition service_get ::
  "(trace \<Rightarrow> request \<Rightarrow> py_error + response) \<Rightarrow> KeboolaServiceClient \<Rightarrow> string \<Rightarrow> dict option
     \<Rightarrow> json io" where
  "service_get net self endpoint params = raw_get net (raw_client self) endpoint params None"

definition service_post ::
  "(trace \<Rightarrow> request \<Rightarrow> py_error + response) \<Rightarrow> KeboolaServiceClient \<Rightarrow> string \<Rightarrow> dict option
     \<Rightarrow> json io" where
  "service_post net self endpoint data = raw_post net (raw_client self) endpoint data None"

definition service_put ::
  "(trace \<Rightarrow> request \<Rightarrow> py_error + response) \<Rightarrow> KeboolaServiceClient \<Rightarrow> string \<Rightarrow> dict option
     \<Rightarrow> json io" where
  "service_put net self endpoint data = raw_put net (raw_client self) endpoint data None"

definition service_delete ::
  "(trace \<Rightarrow> request \<Rightarrow> py_error + response) \<Rightarrow> KeboolaServiceClient \<Rightarrow> string \<Rightarrow> json io" where
  "service_delete net self endpoint = raw_delete net (raw_client self) endpoint None"

definition KeboolaServiceClient_create :: "string \<Rightarrow> string \<Rightarrow> KeboolaServiceClient" where
  "KeboolaServiceClient_create root_url tok =
     \<lparr> raw_client = RawKeboolaClient_init root_url tok None \<rparr>"

definition AsyncStorageClient_create :: "string \<Rightarrow> string \<Rightarrow> string \<Rightarrow> KeboolaServiceClient" where
  "AsyncStorageClient_create root_url tok version =
     \<lparr> raw_client = RawKeboolaClient_init (root_url @ ''/'' @ version @ ''/storage'') tok None \<rparr>"

definition JobsQueueClient_create :: "string \<Rightarrow> string \<Rightarrow> KeboolaServiceClient" where
  "JobsQueueClient_create root_url tok =
     \<lparr> raw_client = RawKeboolaClient_init root_url tok None \<rparr>"

definition AIServiceClient_create :: "string \<Rightarrow> string \<Rightarrow> KeboolaServiceClient" where
  "AIServiceClient_create root_url tok =
     \<lparr> raw_client = RawKeboolaClient_init root_url tok None \<rparr>"

subsection \<open>Job queue\<close>


definition search ::
  "(trace \<Rightarrow> request \<Rightarrow> py_error + response) \<Rightarrow> KeboolaServiceClient \<Rightarrow> dict \<Rightarrow> json io" where
  "search net self params = raw_get net (raw_client self) ''search/jobs'' (Some params) None"

text \<open>
  The arguments as the dictionary literal of \<open>search_jobs_by\<close> lists them; an argument
  that is \<open>None\<close> is \<open>None\<close> here. \<open>limit\<close> and \<open>offset\<close> are integers.
\<close>

definition search_jobs_args ::
  "string option \<Rightarrow> string option \<Rightarrow> string list option \<Rightarrow> int \<Rightarrow> int \<Rightarrow> string option
     \<Rightarrow> string option \<Rightarrow> (string \<times> json option) list" where
  "search_jobs_args component_id config_id status limit offset sort_by sort_order =
     [(''componentId'', map_option JStr component_id),
      (''configId'', map_option JStr config_id),
      (''status'', map_option (\<lambda>xs. JList (map JStr xs)) status),
      (''limit'', Some (JInt limit)),
      (''offset'', Some (JInt offset)),
      (''sortBy'', map_option JStr sort_by),
      (''sortOrder'', map_option JStr sort_order)]"

text \<open>\<open>{k: v for k, v in params.items() if v is not None}\<close>.\<close>

fun drop_none :: "(string \<times> json option) list \<Rightarrow> dict" where
  "drop_none [] = []"
| "drop_none ((k, None) # kvs) = drop_none kvs"
| "drop_none ((k, Some v) # kvs) = (k, v) # drop_none kvs"

definition search_jobs_by ::
  "(trace \<Rightarrow> request \<Rightarrow> py_error + response) \<Rightarrow> KeboolaServiceClient
     \<Rightarrow> string option \<Rightarrow> string option \<Rightarrow> string list option \<Rightarrow> int \<Rightarrow> int \<Rightarrow> string option
     \<Rightarrow> string option \<Rightarrow> json io" where
  "search_jobs_by net self component_id config_id status limit offset sort_by sort_order =
     search net self
       (drop_none (search_jobs_args component_id config_id status limit offset sort_by sort_order))"

definition create_job ::
  "(trace \<Rightarrow> request \<Rightarrow> py_error + response) \<Rightarrow> KeboolaServiceClient \<Rightarrow> string \<Rightarrow> string
     \<Rightarrow> json io" where
  "create_job net self component_id configuration_id =
     raw_post net (raw_client self) ''jobs''
       (Some [(''component'', JStr component_id),
              (''config'', JStr configuration_id),
              (''mode'', JStr ''run'')]) None"

subsection \<open>AI service\<close>

definition get_component_detail ::
  "(trace \<Rightarrow> request \<Rightarrow> py_error + response) \<Rightarrow> KeboolaServiceClient \<Rightarrow> string \<Rightarrow> json io" where
  "get_component_detail net self component_id =
     service_get net self (''docs/components/'' @ component_id) None"

section \<open>The client facade\<close>

text \<open>
  The synchronous storage client comes from the \<open>kbcstorage\<close> package; the code reads its
  branch id and calls its \<open>configurations.detail\<close>.
\<close>

record SyncStorageClient =
  sync_root_url :: string
  sync_token :: string
  branch_id :: string

record KeboolaClient =
  token :: string
  storage_client_sync :: SyncStorageClient
  storage_client :: KeboolaServiceClient
  jobs_queue_client :: KeboolaServiceClient
  ai_service_client :: KeboolaServiceClient

datatype state_value = ClientValue KeboolaClient | OtherValue json

record Context =
  session_state :: "string \<Rightarrow> state_value option"

text \<open>
  What the modelled functions call and this repository's \<open>src/\<close> does not define: the
  network, the \<open>kbcstorage\<close> SDK, the generative capability, the helpers of
  \<open>tools/components/utils.py\<close> and \<open>tools/sql.py\<close>, and the Pydantic models of
  \<open>tools/components/model.py\<close>. Each is a parameter; those that talk to the outside
  see the trace so far.
\<close>

record env =
  network :: "trace \<Rightarrow> request \<Rightarrow> py_error + response"
  sync_client_new :: "string \<Rightarrow> string \<Rightarrow> py_error + SyncStorageClient"
  configurations_detail :: "trace \<Rightarrow> SyncStorageClient \<Rightarrow> string \<Rightarrow> string \<Rightarrow> py_error + json"
  component_details :: "trace \<Rightarrow> KeboolaClient \<Rightarrow> string \<Rightarrow> py_error + json"
  ComponentConfiguration_new :: "dict \<Rightarrow> py_error + json"
  sql_dialect :: "trace \<Rightarrow> Context \<Rightarrow> py_error + string"
  transformation_id_from_dialect :: "string \<Rightarrow> py_error + string"
  transformation_configuration :: "string list \<Rightarrow> string \<Rightarrow> string list \<Rightarrow> py_error + json"
  model_dump :: "json \<Rightarrow> json"
  DataApp_new :: "dict \<Rightarrow> py_error + json"
  DataAppConfiguration_new :: "dict \<Rightarrow> py_error + json"
  generate :: "trace \<Rightarrow> string \<Rightarrow> py_error + json"
  handle_component_types :: "string list \<Rightarrow> py_error + string list"
  retrieve_by_types :: "trace \<Rightarrow> KeboolaClient \<Rightarrow> string list \<Rightarrow> py_error + json"
  retrieve_by_ids :: "trace \<Rightarrow> KeboolaClient \<Rightarrow> string list \<Rightarrow> py_error + json"

definition STATE_KEY :: string where
  "STATE_KEY = ''sapi_client''"

definition PREFIX_STORAGE_API_URL :: string where
  "PREFIX_STORAGE_API_URL = ''connection.''"

definition PREFIX_QUEUE_API_URL :: string where
  "PREFIX_QUEUE_API_URL = ''https://queue.''"

definition PREFIX_AISERVICE_API_URL :: string where
  "PREFIX_AISERVICE_API_URL = ''https://ai.''"

definition from_state :: "(string \<Rightarrow> state_value option) \<Rightarrow> py_error + KeboolaClient" where
  "from_state st =
     (case st STATE_KEY of
        None \<Rightarrow> Inl (KeyError STATE_KEY)
      | Some (ClientValue c) \<Rightarrow> Inr c
      | Some (OtherValue v) \<Rightarrow> Inl AssertionError)"

text \<open>
  \<open>KeboolaClient.__init__\<close>. The expression \<open>storage_api_url.split('connection.')[1]\<close> is
  evaluated twice, once for each derived root, before any client is built.
\<close>

definition KeboolaClient_init :: "env \<Rightarrow> string \<Rightarrow> string \<Rightarrow> KeboolaClient io" where
  "KeboolaClient_init ev storage_api_token storage_api_url =
     (let url = (if \<not> startswith_any storage_api_url [''http://'', ''https://'']
                 then ''https://'' @ storage_api_url
                 else storage_api_url)
      in bind_io (lift_io (py_split url PREFIX_STORAGE_API_URL)) (\<lambda>parts.
         bind_io (lift_io (py_index parts 1)) (\<lambda>rest.
         let queue_api_url = PREFIX_QUEUE_API_URL @ rest
         in bind_io (lift_io (py_split url PREFIX_STORAGE_API_URL)) (\<lambda>parts'.
            bind_io (lift_io (py_index parts' 1)) (\<lambda>rest'.
            let ai_service_api_url = PREFIX_AISERVICE_API_URL @ rest'
            in bind_io (lift_io (sync_client_new ev url storage_api_token)) (\<lambda>sync.
               return_io \<lparr> token = storage_api_token,
                           storage_client_sync = sync,
                           storage_client = AsyncStorageClient_create url storage_api_token ''v2'',
                           jobs_queue_client = JobsQueueClient_create queue_api_url storage_api_token,
                           ai_service_client =
                             AIServiceClient_create ai_service_api_url storage_api_token \<rparr>))))))"

section \<open>Component tools\<close>

text \<open>The calls that reach outside through the helpers, each recorded in the trace.\<close>

definition get_component_details :: "env \<Rightarrow> KeboolaClient \<Rightarrow> string \<Rightarrow> json io" where
  "get_component_details ev client component_id w =
     (component_details ev w client component_id, w @ [ComponentLookup component_id])"

definition sync_configurations_detail ::
  "env \<Rightarrow> SyncStorageClient \<Rightarrow> string \<Rightarrow> string \<Rightarrow> json io" where
  "sync_configurations_detail ev sync component_id configuration_id w =
     (configurations_detail ev w sync component_id configuration_id,
      w @ [SyncConfigurationDetail component_id configuration_id])"

definition get_sql_dialect :: "env \<Rightarrow> Context \<Rightarrow> string io" where
  "get_sql_dialect ev ctx w = (sql_dialect ev w ctx, w @ [DialectLookup])"

definition ctx_generate :: "env \<Rightarrow> string \<Rightarrow> json io" where
  "ctx_generate ev prompt w = (generate ev w prompt, w @ [Generate prompt])"

definition retrieve_components_configurations_by_types ::
  "env \<Rightarrow> KeboolaClient \<Rightarrow> string list \<Rightarrow> json io" where
  "retrieve_components_configurations_by_types ev client types w =
     (retrieve_by_types ev w client types, w @ [RetrieveByTypes types])"

definition retrieve_components_configurations_by_ids ::
  "env \<Rightarrow> KeboolaClient \<Rightarrow> string list \<Rightarrow> json io" where
  "retrieve_components_configurations_by_ids ev client ids w =
     (retrieve_by_ids ev w client ids, w @ [RetrieveByIds ids])"

text \<open>\<open>{**raw, ...}\<close> and \<open>f(**raw, ...)\<close> need \<open>raw\<close> to be a mapping.\<close>

definition mapping_items :: "json \<Rightarrow> py_error + dict" where
  "mapping_items v =
     (case v of JObj kvs \<Rightarrow> Inr kvs | _ \<Rightarrow> Inl (TypeError ''argument is not a mapping''))"

text \<open>
  \<open>f(**raw, k1=v1, ...)\<close>: a key of \<open>raw\<close> that is also given as a keyword is a
  \<open>TypeError\<close> (multiple values for a keyword argument).
\<close>

definition call_kwargs :: "json \<Rightarrow> dict \<Rightarrow> py_error + dict" where
  "call_kwargs raw kws =
     (case mapping_items raw of
        Inl e \<Rightarrow> Inl e
      | Inr kvs \<Rightarrow>
          (if list_ex (\<lambda>k. k \<in> set (map fst kws)) (map fst kvs)
           then Inl (TypeError ''got multiple values for keyword argument'')
           else Inr (kvs @ kws)))"

definition retrieve_components_configurations ::
  "env \<Rightarrow> Context \<Rightarrow> string list \<Rightarrow> string list \<Rightarrow> json io" where
  "retrieve_components_configurations ev ctx component_types component_ids =
     (if component_ids = []
      then bind_io (lift_io (from_state (session_state ctx))) (\<lambda>client.
           bind_io (lift_io (handle_component_types ev component_types)) (\<lambda>types.
           retrieve_components_configurations_by_types ev client types))
      else bind_io (lift_io (from_state (session_state ctx))) (\<lambda>client.
           retrieve_components_configurations_by_ids ev client component_ids))"

definition retrieve_transformations_configurations ::
  "env \<Rightarrow> Context \<Rightarrow> string list \<Rightarrow> json io" where
  "retrieve_transformations_configurations ev ctx transformation_ids =
     (if transformation_ids = []
      then bind_io (lift_io (from_state (session_state ctx))) (\<lambda>client.
           retrieve_components_configurations_by_types ev client [''transformation''])
      else bind_io (lift_io (from_state (session_state ctx))) (\<lambda>client.
           retrieve_components_configurations_by_ids ev client transformation_ids))"

definition metadata_endpoint :: "KeboolaClient \<Rightarrow> string \<Rightarrow> string \<Rightarrow> string" where
  "metadata_endpoint client component_id configuration_id =
     ''branch/'' @ branch_id (storage_client_sync client) @ ''/components/'' @ component_id
       @ ''/configs/'' @ configuration_id @ ''/metadata''"

definition get_component_configuration_details ::
  "env \<Rightarrow> string \<Rightarrow> string \<Rightarrow> Context \<Rightarrow> json io" where
  "get_component_configuration_details ev component_id configuration_id ctx =
     bind_io (lift_io (from_state (session_state ctx))) (\<lambda>client.
     bind_io (get_component_details ev client component_id) (\<lambda>component.
     bind_io (sync_configurations_detail ev (storage_client_sync client)
                component_id configuration_id) (\<lambda>raw_configuration.
     bind_io (emit (LogInfo (''Retrieved configuration details for '' @ component_id
                @ '' component with configuration '' @ configuration_id @ ''.''))) (\<lambda>_.
     bind_io (service_get (network ev) (storage_client client)
                (metadata_endpoint client component_id configuration_id) None) (\<lambda>r_metadata.
     bind_io (emit (LogInfo
                (if truthy r_metadata
                 then ''Retrieved configuration metadata for '' @ component_id
                        @ '' component with configuration '' @ configuration_id @ ''.''
                 else ''No metadata found for '' @ component_id
                        @ '' component with configuration '' @ configuration_id @ ''.''))) (\<lambda>_.
     bind_io (lift_io (mapping_items raw_configuration)) (\<lambda>items.
     lift_io (ComponentConfiguration_new ev
       (AList.update ''metadata'' r_metadata
         (AList.update ''component_id'' (JStr component_id)
           (AList.update ''component'' component items)))))))))))"

definition configs_endpoint :: "KeboolaClient \<Rightarrow> string \<Rightarrow> string" where
  "configs_endpoint client component_id =
     ''branch/'' @ branch_id (storage_client_sync client) @ ''/components/'' @ component_id
       @ ''/configs''"

text \<open>The \<open>configuration_id\<close> attribute of a validated configuration, as the log prints it.\<close>

definition configuration_id_text :: "json \<Rightarrow> string" where
  "configuration_id_text cfg =
     (case cfg of
        JObj kvs \<Rightarrow> (case map_of kvs ''configuration_id'' of Some (JStr i) \<Rightarrow> i | _ \<Rightarrow> ''None'')
      | _ \<Rightarrow> ''None'')"

definition create_sql_transformation ::
  "env \<Rightarrow> Context \<Rightarrow> string \<Rightarrow> string \<Rightarrow> string list \<Rightarrow> string list \<Rightarrow> json io" where
  "create_sql_transformation ev ctx name description sql_statements created_table_names =
     bind_io (get_sql_dialect ev ctx) (\<lambda>dialect.
     bind_io (lift_io (transformation_id_from_dialect ev dialect)) (\<lambda>transformation_id.
     bind_io (emit (LogInfo (''SQL dialect: '' @ dialect @ '', using transformation ID: ''
                @ transformation_id))) (\<lambda>_.
     bind_io (lift_io (transformation_configuration ev sql_statements name
                created_table_names)) (\<lambda>transformation_configuration_payload.
     bind_io (lift_io (from_state (session_state ctx))) (\<lambda>client.
     bind_io (emit (LogInfo (''Creating new transformation configuration: '' @ name
                @ '' for component: '' @ transformation_id @ ''.''))) (\<lambda>_.
     catch_io
       (bind_io (service_post (network ev) (storage_client client)
                   (configs_endpoint client transformation_id)
                   (Some [(''name'', JStr name),
                          (''description'', JStr description),
                          (''configuration'',
                             model_dump ev transformation_configuration_payload)]))
          (\<lambda>new_raw_transformation_configuration.
        bind_io (get_component_details ev client transformation_id) (\<lambda>component.
        bind_io (lift_io (call_kwargs new_raw_transformation_configuration
                   [(''component_id'', JStr transformation_id),
                    (''component'', component)])) (\<lambda>kwargs.
        bind_io (lift_io (ComponentConfiguration_new ev kwargs))
          (\<lambda>new_transformation_configuration.
        bind_io (emit (LogInfo (''Created new transformation \"'' @ transformation_id
                   @ ''\" with configuration id \"''
                   @ configuration_id_text new_transformation_configuration @ ''\".''))) (\<lambda>_.
        return_io new_transformation_configuration))))))
       (\<lambda>e. bind_io (emit (LogException
                 ''Error when creating new transformation configuration: '' e)) (\<lambda>_.
             raise_io e))))))))"

subsection \<open>Data apps\<close>

definition join_lines :: "string list \<Rightarrow> string" where
  "join_lines ls = concat (case ls of [] \<Rightarrow> [] | l # rest \<Rightarrow> l # map (\<lambda>x. CHR 0x0A # x) rest)"

definition data_app_prompt :: "string \<Rightarrow> string \<Rightarrow> string option \<Rightarrow> string" where
  "data_app_prompt name description user_query =
     join_lines
      [''Generate a Streamlit script for a data app named '' @ [CHR 0x27] @ name @ [CHR 0x27]
         @ '' that '' @ description @ ''.'',
       [],
       ''User Query: '' @ (case user_query of
                             None \<Rightarrow> ''No specific query provided''
                           | Some q \<Rightarrow> (if q \<noteq> [] then q else ''No specific query provided'')),
       [],
       ''Pre-installed Libraries:'',
       ''- streamlit'',
       ''- pandas'',
       ''- numpy'',
       ''- plotly'',
       ''- matplotlib'',
       ''- seaborn'',
       ''- scikit-learn'',
       ''- altair'',
       ''- streamlit-aggrid'',
       ''- streamlit-authenticator'',
       ''- streamlit-keboola-api'',
       ''- pydeck'',
       ''- extra-streamlit-components'',
       [],
       ''Requirements:'',
       ''- Use Streamlit for data visualization or interaction'',
       ''- Include proper error handling'',
       ''- Add helpful comments'',
       ''- Follow Python best practices'',
       ''- Use Keboola's CommonInterface for data access:'',
       ''   - Use ci = CommonInterface() for data access'',
       ''   - Use ci.get_input_tables_definitions() to get table definitions'',
       ''   - Use ci.get_input_tables() to read data'',
       ''   - Handle table paths and CSV reading properly'',
       ''- Make the UI clean and user-friendly'',
       ''- Include data validation and error handling for missing or invalid data'',
       ''- Add appropriate visualizations based on the data types'',
       ''- Include filters and interactive elements where appropriate'',
       [],
       [],
       ''Please provide only the Python code, no explanations. The code should:'',
       ''- Initialize Keboola CommonInterface for data access'',
       ''- Handle the specific data tables mentioned in the user query or description'',
       ''- Create appropriate visualizations based on the data'',
       ''- Include proper error handling for data access and processing'',
       ''- Follow Streamlit best practices for UI/UX'',
       ''- Use proper Keboola data access patterns'']"

text \<open>\<open>str.strip()\<close>: the ASCII characters Python counts as whitespace.\<close>

definition is_space :: "char \<Rightarrow> bool" where
  "is_space c = (c \<in> set [CHR 0x09, CHR 0x0A, CHR 0x0B, CHR 0x0C, CHR 0x0D,
                           CHR 0x1C, CHR 0x1D, CHR 0x1E, CHR 0x1F, CHR 0x20])"

definition strip :: "string \<Rightarrow> string" where
  "strip s = rev (dropWhile is_space (rev (dropWhile is_space s)))"

definition generate_data_app_script ::
  "env \<Rightarrow> string \<Rightarrow> string \<Rightarrow> string option \<Rightarrow> string list io" where
  "generate_data_app_script ev name description user_query =
     bind_io (ctx_generate ev (data_app_prompt name description user_query)) (\<lambda>response.
       (case response of
          JStr text \<Rightarrow>
            (if text = [] then raise_io (ValueError ''Failed to generate data app from Claude'')
             else return_io
                    (map strip
                      (filter (\<lambda>line. strip line \<noteq> [] \<and> \<not> startswith (strip line) ''```'')
                        (str_split [CHR 0x0A] text))))
        | _ \<Rightarrow> raise_io (ValueError ''Failed to generate data app from Claude'')))"

definition default_streamlit_config :: "(string \<times> string) list" where
  "default_streamlit_config =
     [(''config.toml'',
       join_lines [''[theme]'',
                   ''font = \"sans serif\"'',
                   ''textColor = \"#222529\"'',
                   ''backgroundColor = \"#FFFFFF\"'',
                   ''secondaryBackgroundColor = \"#E6F2FF\"'',
                   ''primaryColor = \"#1F8FFF\"''])]"

definition data_app_authorization :: json where
  "data_app_authorization =
     JObj [(''app_proxy'',
            JObj [(''auth_providers'', JList []),
                  (''auth_rules'',
                   JList [JObj [(''type'', JStr ''pathPrefix''),
                                (''value'', JStr ''/''),
                                (''auth_required'', JBool False)]])])]"

definition data_app_configuration ::
  "env \<Rightarrow> string \<Rightarrow> string \<Rightarrow> string \<Rightarrow> string list \<Rightarrow> string \<Rightarrow> int \<Rightarrow> json \<Rightarrow> dict" where
  "data_app_configuration ev name description slug script app_size auto_suspend_after_seconds
     data_app =
     [(''name'', JStr name),
      (''description'', JStr description),
      (''configuration'',
       JObj [(''parameters'',
              JObj [(''size'', JStr app_size),
                    (''autoSuspendAfterSeconds'', JInt auto_suspend_after_seconds),
                    (''dataApp'', model_dump ev data_app),
                    (''id'', JStr slug),
                    (''script'', JList (map JStr script))]),
             (''authorization'', data_app_authorization)])]"

text \<open>The keyword arguments of \<open>DataApp(...)\<close>, with the default theme when none is given.\<close>

definition data_app_kwargs ::
  "string \<Rightarrow> string list \<Rightarrow> string \<Rightarrow> int \<Rightarrow> (string \<times> string) list option \<Rightarrow> dict" where
  "data_app_kwargs slug script app_size auto_suspend_after_seconds streamlit_config =
     [(''slug'', JStr slug),
      (''script'', JList (map JStr script)),
      (''size'', JStr app_size),
      (''autoSuspendAfterSeconds'', JInt auto_suspend_after_seconds),
      (''streamlit'',
       JObj (map (\<lambda>kv. (fst kv, JStr (snd kv)))
              (case streamlit_config of
                 None \<Rightarrow> default_streamlit_config
               | Some c \<Rightarrow> (if c \<noteq> [] then c else default_streamlit_config))))]"

text \<open>\<open>if not script: script = await _generate_data_app_script(...)\<close>, then the log line.\<close>

definition resolve_script ::
  "env \<Rightarrow> string \<Rightarrow> string \<Rightarrow> string option \<Rightarrow> string list option \<Rightarrow> string list io" where
  "resolve_script ev name description user_query script =
     (if script = None \<or> script = Some []
      then bind_io (generate_data_app_script ev name description user_query) (\<lambda>s.
           bind_io (emit (LogInfo ''Generating using agent...'')) (\<lambda>_. return_io s))
      else return_io (the script))"

definition create_data_app ::
  "env \<Rightarrow> Context \<Rightarrow> string \<Rightarrow> string \<Rightarrow> string \<Rightarrow> string option \<Rightarrow> string list option
     \<Rightarrow> string \<Rightarrow> int \<Rightarrow> (string \<times> string) list option \<Rightarrow> json io" where
  "create_data_app ev ctx name description slug user_query script app_size
     auto_suspend_after_seconds streamlit_config =
     bind_io (lift_io (from_state (session_state ctx))) (\<lambda>client.
     bind_io (resolve_script ev name description user_query script) (\<lambda>script'.
     bind_io (lift_io (DataApp_new ev
                (data_app_kwargs slug script' app_size auto_suspend_after_seconds
                   streamlit_config))) (\<lambda>data_app.
     let configuration = data_app_configuration ev name description slug script' app_size
                           auto_suspend_after_seconds data_app;
         component_id = ''keboola.app-data-app''
     in catch_io
          (bind_io (service_post (network ev) (storage_client client)
                      (configs_endpoint client component_id) (Some configuration))
             (\<lambda>new_raw_configuration.
           bind_io (get_component_details ev client component_id) (\<lambda>component.
           bind_io (lift_io (call_kwargs new_raw_configuration
                      [(''component_id'', JStr component_id),
                       (''component'', component),
                       (''data_app'', data_app),
                       (''authorization'', data_app_authorization)])) (\<lambda>kwargs.
           bind_io (lift_io (DataAppConfiguration_new ev kwargs)) (\<lambda>new_configuration.
           bind_io (emit (LogInfo (''Created new data app \"'' @ name
                      @ ''\" with configuration id \"''
                      @ configuration_id_text new_configuration @ ''\".''))) (\<lambda>_.
           return_io new_configuration))))))
          (\<lambda>e. bind_io (emit (LogException
                    ''Error when creating new data app configuration: '' e)) (\<lambda>_.
                raise_io e)))))"

section \<open>Reference notions used to state the properties\<close>

text \<open>
  The text that follows the first occurrence of a marker in a string, when there is one:
  the reading of "the remainder after the marker" used to compare with the code.
\<close>

fun remainder_after :: "string \<Rightarrow> string \<Rightarrow> string option" where
  "remainder_after m [] = (if m = [] then Some [] else None)"
| "remainder_after m (c # cs) =
     (if prefix m (c # cs) then Some (drop (length m) (c # cs)) else remainder_after m cs)"

text \<open>The two derived roots of a facade: the base URLs its derived clients were built with.\<close>

definition queue_root :: "KeboolaClient \<Rightarrow> string" where
  "queue_root c = base_api_url (raw_client (jobs_queue_client c))"

definition ai_root :: "KeboolaClient \<Rightarrow> string" where
  "ai_root c = base_api_url (raw_client (ai_service_client c))"

text \<open>The calls of the generative capability recorded in a trace.\<close>

fun generate_calls :: "trace \<Rightarrow> string list" where
  "generate_calls [] = []"
| "generate_calls (Generate p # evs) = p # generate_calls evs"
| "generate_calls (ev # evs) = generate_calls evs"

text \<open>Looking a path of keys up in nested JSON objects.\<close>

fun json_path :: "json \<Rightarrow> string list \<Rightarrow> json option" where
  "json_path v [] = Some v"
| "json_path (JObj kvs) (k # ks) =
     (case map_of kvs k of None \<Rightarrow> None | Some v \<Rightarrow> json_path v ks)"
| "json_path v (k # ks) = None"

subsection \<open>A sample environment for the concrete instances\<close>

definition sample_response :: "nat \<Rightarrow> json option \<Rightarrow> response" where
  "sample_response code j = \<lparr> status_code = code, body_text = ''body'', body_json = j \<rparr>"

definition sample_env :: env where
  "sample_env =
     \<lparr> network = (\<lambda>w q. Inr (sample_response 200 (Some (JObj [(''id'', JStr ''42'')])))),
       sync_client_new =
         (\<lambda>url tok. Inr \<lparr> sync_root_url = url, sync_token = tok, branch_id = ''default'' \<rparr>),
       configurations_detail = (\<lambda>w sync cid cfg. Inr (JObj [(''id'', JStr cfg)])),
       component_details = (\<lambda>w client cid. Inr (JObj [(''id'', JStr cid)])),
       ComponentConfiguration_new = (\<lambda>d. Inr (JObj d)),
       sql_dialect = (\<lambda>w ctx. Inr ''Snowflake''),
       transformation_id_from_dialect = (\<lambda>d. Inr ''keboola.snowflake-transformation''),
       transformation_configuration =
         (\<lambda>stmts nm outs. Inr (JObj [(''statements'', JList (map JStr stmts))])),
       model_dump = (\<lambda>v. v),
       DataApp_new = (\<lambda>d. Inr (JObj d)),
       DataAppConfiguration_new = (\<lambda>d. Inr (JObj d)),
       generate = (\<lambda>w p. Inr (JStr ''print(0)'')),
       handle_component_types = (\<lambda>ts. Inr ts),
       retrieve_by_types = (\<lambda>w client ts. Inr (JList (map JStr ts))),
       retrieve_by_ids = (\<lambda>w client ids. Inr (JList (map JStr ids))) \<rparr>"

definition sample_client :: KeboolaClient where
  "sample_client =
     \<lparr> token = ''token'',
       storage_client_sync =
         \<lparr> sync_root_url = ''https://connection.keboola.com'', sync_token = ''token'',
           branch_id = ''default'' \<rparr>,
       storage_client = AsyncStorageClient_create ''https://connection.keboola.com'' ''token'' ''v2'',
       jobs_queue_client = JobsQueueClient_create ''https://queue.keboola.com'' ''token'',
       ai_service_client = AIServiceClient_create ''https://ai.keboola.com'' ''token'' \<rparr>"

definition sample_ctx :: Context where
  "sample_ctx = \<lparr> session_state = [STATE_KEY \<mapsto> ClientValue sample_client] \<rparr>"

subsection \<open>Requests and dictionaries named in the statements\<close>

text \<open>
  The request a verb of the raw transport client hands to \<open>httpx\<close>: the endpoint under the
  client's base URL, the client's headers updated with the call's, and the verb's own
  query parameters or body.
\<close>

definition sent_request ::
  "http_method \<Rightarrow> RawKeboolaClient \<Rightarrow> string \<Rightarrow> (string \<times> string) list option \<Rightarrow> dict option
     \<Rightarrow> payload \<Rightarrow> request" where
  "sent_request m self endpoint hdrs params body =
     \<lparr> req_method = m,
       req_url = base_api_url self @ ''/'' @ endpoint,
       req_headers = dict_union (headers self) (or_empty hdrs),
       req_params = params,
       req_body = body \<rparr>"

subsection \<open>A sample network and raw client\<close>

definition sample_net :: "nat \<Rightarrow> json option \<Rightarrow> trace \<Rightarrow> request \<Rightarrow> py_error + response" where
  "sample_net code j w q = Inr (sample_response code j)"

definition sample_raw :: RawKeboolaClient where
  "sample_raw = RawKeboolaClient_init ''https://queue.keboola.com'' ''token'' None"

subsection \<open>The composite dictionary\<close>

text \<open>
  The dictionary handed to \<open>ComponentConfiguration.model_validate\<close>: the items of the raw
  configuration with the three keys set.
\<close>

definition composite_fields :: "dict \<Rightarrow> json \<Rightarrow> string \<Rightarrow> json \<Rightarrow> dict" where
  "composite_fields items component component_id r_metadata =
     AList.update ''metadata'' r_metadata
       (AList.update ''component_id'' (JStr component_id)
         (AList.update ''component'' component items))"

subsection \<open>Failing look-ups for the concrete instances\<close>

definition failing_lookup :: "trace \<Rightarrow> KeboolaClient \<Rightarrow> string \<Rightarrow> py_error + json" where
  "failing_lookup w client cid = Inl (HTTPStatusError 404 ''component not found'')"

definition failing_detail :: "trace \<Rightarrow> SyncStorageClient \<Rightarrow> string \<Rightarrow> string \<Rightarrow> py_error + json" where
  "failing_detail w sync cid cfg = Inl (HTTPStatusError 404 ''configuration not found'')"

subsection \<open>The requests of the two creation operations\<close>

text \<open>The request with which \<open>create_data_app\<close> posts its configuration.\<close>

definition data_app_post :: "env \<Rightarrow> KeboolaClient \<Rightarrow> string \<Rightarrow> string \<Rightarrow> string \<Rightarrow> string list
     \<Rightarrow> string \<Rightarrow> int \<Rightarrow> json \<Rightarrow> request" where
  "data_app_post ev client name description slug script app_size auto_suspend_after_seconds
     data_app =
     sent_request POST (raw_client (storage_client client))
       (configs_endpoint client ''keboola.app-data-app'') None None
       (JsonBody (JObj (data_app_configuration ev name description slug script app_size
                          auto_suspend_after_seconds data_app)))"

text \<open>
  What \<open>create_sql_transformation\<close> records before it enters its \<open>try\<close> block, the body
  it posts, and the request that carries it.
\<close>

definition transformation_log_prefix :: "string \<Rightarrow> string \<Rightarrow> string \<Rightarrow> trace" where
  "transformation_log_prefix dialect transformation_id name =
     [DialectLookup,
      LogInfo (''SQL dialect: '' @ dialect @ '', using transformation ID: '' @ transformation_id),
      LogInfo (''Creating new transformation configuration: '' @ name
                 @ '' for component: '' @ transformation_id @ ''.'')]"

definition transformation_body :: "env \<Rightarrow> string \<Rightarrow> string \<Rightarrow> json \<Rightarrow> dict" where
  "transformation_body ev name description payload =
     [(''name'', JStr name),
      (''description'', JStr description),
      (''configuration'', model_dump ev payload)]"

definition transformation_post ::
  "env \<Rightarrow> KeboolaClient \<Rightarrow> string \<Rightarrow> string \<Rightarrow> string \<Rightarrow> json \<Rightarrow> request" where
  "transformation_post ev client transformation_id name description payload =
     sent_request POST (raw_client (storage_client client))
       (configs_endpoint client transformation_id) None None
       (JsonBody (JObj (transformation_body ev name description payload)))"

section \<open>The sample environment, field by field\<close>

lemma sample_network:
  "network sample_env w q = Inr (sample_response 200 (Some (JObj [(''id'', JStr ''42'')])))"
  by (simp add: sample_env_def)

lemma sample_sync_client_new:
  "sync_client_new sample_env u t
     = Inr \<lparr> sync_root_url = u, sync_token = t, branch_id = ''default'' \<rparr>"
  by (simp add: sample_env_def)

lemma sample_configurations_detail:
  "configurations_detail sample_env w sync cid cfg = Inr (JObj [(''id'', JStr cfg)])"
  by (simp add: sample_env_def)

lemma sample_component_details:
  "component_details sample_env w client cid = Inr (JObj [(''id'', JStr cid)])"
  by (simp add: sample_env_def)

lemma sample_ComponentConfiguration_new: "ComponentConfiguration_new sample_env d = Inr (JObj d)"
  by (simp add: sample_env_def)

lemma sample_sql_dialect: "sql_dialect sample_env w ctx = Inr ''Snowflake''"
  by (simp add: sample_env_def)

lemma sample_transformation_id:
  "transformation_id_from_dialect sample_env d = Inr ''keboola.snowflake-transformation''"
  by (simp add: sample_env_def)

lemma sample_transformation_configuration:
  "transformation_configuration sample_env stmts nm outs
     = Inr (JObj [(''statements'', JList (map JStr stmts))])"
  by (simp add: sample_env_def)

lemma sample_model_dump: "model_dump sample_env v = v"
  by (simp add: sample_env_def)

lemma sample_DataApp_new: "DataApp_new sample_env d = Inr (JObj d)"
  by (simp add: sample_env_def)

lemma sample_DataAppConfiguration_new: "DataAppConfiguration_new sample_env d = Inr (JObj d)"
  by (simp add: sample_env_def)

lemma sample_generate: "generate sample_env w p = Inr (JStr ''print(0)'')"
  by (simp add: sample_env_def)

lemma sample_handle_component_types: "handle_component_types sample_env ts = Inr ts"
  by (simp add: sample_env_def)

lemma sample_retrieve_by_types: "retrieve_by_types sample_env w client ts = Inr (JList (map JStr ts))"
  by (simp add: sample_env_def)

lemma sample_retrieve_by_ids: "retrieve_by_ids sample_env w client ids = Inr (JList (map JStr ids))"
  by (simp add: sample_env_def)

lemmas sample_env_simps =
  sample_network sample_sync_client_new sample_configurations_detail sample_component_details
  sample_ComponentConfiguration_new sample_sql_dialect sample_transformation_id
  sample_transformation_configuration sample_model_dump sample_DataApp_new
  sample_DataAppConfiguration_new sample_generate sample_handle_component_types
  sample_retrieve_by_types sample_retrieve_by_ids

lemma sample_from_state: "from_state (session_state sample_ctx) = Inr sample_client"
  by (simp add: from_state_def sample_ctx_def)

section \<open>Splitting at a marker\<close>

lemma str_split_nonempty: "str_split sep s \<noteq> []"
  by (induction sep s rule: str_split.induct) (auto split: list.splits)

lemma remainder_none_iff: "m \<noteq> [] \<Longrightarrow> remainder_after m s = None \<longleftrightarrow> \<not> sublist m s"
  by (induction s) (auto simp: sublist_Cons_right)

lemma split_without_marker:
  "m \<noteq> [] \<Longrightarrow> remainder_after m s = None \<Longrightarrow> str_split m s = [s]"
  by (induction s) (auto split: if_splits)

lemma split_at_first_marker:
  "m \<noteq> [] \<Longrightarrow> remainder_after m s = Some b \<Longrightarrow> \<exists>a. str_split m s = a # str_split m b"
  by (induction s) (auto split: if_splits)

lemma hd_split_whole: "m \<noteq> [] \<Longrightarrow> \<not> sublist m s \<Longrightarrow> hd (str_split m s) = s"
  by (simp add: split_without_marker remainder_none_iff)

lemma marker_nonempty: "PREFIX_STORAGE_API_URL \<noteq> []"
  by (simp add: PREFIX_STORAGE_API_URL_def)

text \<open>Putting \<open>https://\<close> in front neither adds nor removes an occurrence of the marker.\<close>

lemma remainder_scheme:
  "remainder_after PREFIX_STORAGE_API_URL
     (if \<not> startswith_any u [''http://'', ''https://''] then ''https://'' @ u else u)
   = remainder_after PREFIX_STORAGE_API_URL u"
  by (simp add: PREFIX_STORAGE_API_URL_def)

lemma py_index_1_split:
  assumes "m \<noteq> []" "remainder_after m s = Some b"
  shows "py_index (str_split m s) 1 = Inr (hd (str_split m b))"
proof -
  from split_at_first_marker[OF assms] obtain a where a: "str_split m s = a # str_split m b"
    by blast
  from str_split_nonempty[of m b] obtain x xs where "str_split m b = x # xs"
    by (cases "str_split m b") auto
  with a show ?thesis by (simp add: py_index_def)
qed

section \<open>Facade construction\<close>

lemma init_no_marker:
  assumes "\<not> sublist PREFIX_STORAGE_API_URL url"
  shows "KeboolaClient_init ev tok url w = (Inl IndexError, w)"
proof -
  let ?u = "if \<not> startswith_any url [''http://'', ''https://''] then ''https://'' @ url else url"
  from assms have "remainder_after PREFIX_STORAGE_API_URL url = None"
    by (simp add: remainder_none_iff marker_nonempty)
  then have "remainder_after PREFIX_STORAGE_API_URL ?u = None"
    by (simp only: remainder_scheme)
  then have "str_split PREFIX_STORAGE_API_URL ?u = [?u]"
    by (rule split_without_marker[OF marker_nonempty])
  then show ?thesis
    by (simp add: KeboolaClient_init_def Let_def py_split_def marker_nonempty py_index_def
        bind_io_def lift_io_def)
qed

lemma init_marker:
  assumes "remainder_after PREFIX_STORAGE_API_URL url = Some rest"
  shows "KeboolaClient_init ev tok url w =
    (let u = (if \<not> startswith_any url [''http://'', ''https://'']
              then ''https://'' @ url else url);
         r = hd (str_split PREFIX_STORAGE_API_URL rest)
     in case sync_client_new ev u tok of
          Inl e \<Rightarrow> (Inl e, w)
        | Inr sync \<Rightarrow>
           (Inr \<lparr> token = tok, storage_client_sync = sync,
                  storage_client = AsyncStorageClient_create u tok ''v2'',
                  jobs_queue_client = JobsQueueClient_create (PREFIX_QUEUE_API_URL @ r) tok,
                  ai_service_client =
                    AIServiceClient_create (PREFIX_AISERVICE_API_URL @ r) tok \<rparr>, w))"
proof -
  let ?u = "if \<not> startswith_any url [''http://'', ''https://''] then ''https://'' @ url else url"
  from assms have "remainder_after PREFIX_STORAGE_API_URL ?u = Some rest"
    by (simp only: remainder_scheme)
  then have "py_index (str_split PREFIX_STORAGE_API_URL ?u) 1
               = Inr (hd (str_split PREFIX_STORAGE_API_URL rest))"
    by (rule py_index_1_split[OF marker_nonempty])
  then show ?thesis
    by (simp add: KeboolaClient_init_def Let_def py_split_def marker_nonempty
        bind_io_def lift_io_def return_io_def split: sum.splits)
qed

lemmas client_simps =
  JobsQueueClient_create_def AIServiceClient_create_def AsyncStorageClient_create_def
  RawKeboolaClient_init_def

text \<open>
  C3. When the marker \<open>connection.\<close> does not occur in the connection URL, facade
  construction makes no network call (the trace is unchanged) but does not complete: for
  every environment, token and trace, \<open>storage_api_url.split('connection.')[1]\<close> raises
  \<open>IndexError\<close> before any client is built, so no facade and no derived root is produced.
\<close>

theorem init_without_marker_raises:
  "\<not> sublist PREFIX_STORAGE_API_URL url \<Longrightarrow>
     KeboolaClient_init ev tok url w = (Inl IndexError, w)"
  by (rule init_no_marker)

text \<open>The same at a concrete URL without the marker.\<close>

theorem init_without_marker_raises_witness:
  "\<not> sublist PREFIX_STORAGE_API_URL ''https://example.keboola.com'' \<and>
   KeboolaClient_init sample_env ''token'' ''https://example.keboola.com'' [] = (Inl IndexError, [])"
  using init_without_marker_raises[of "''https://example.keboola.com''" sample_env "''token''" "[]"]
  by (simp add: PREFIX_STORAGE_API_URL_def sublist_code)

text \<open>
  Construction does not complete on a URL without the marker: the result is the
  \<open>IndexError\<close>, not a facade with a malformed root.
\<close>

theorem init_without_marker_counterexample:
  "\<not> sublist PREFIX_STORAGE_API_URL ''https://storage.keboola.com'' \<and>
   fst (KeboolaClient_init sample_env ''token'' ''https://storage.keboola.com'' []) = Inl IndexError"
proof -
  have n: "\<not> sublist PREFIX_STORAGE_API_URL ''https://storage.keboola.com''"
    by (simp add: PREFIX_STORAGE_API_URL_def sublist_code)
  from n init_no_marker[OF n] show ?thesis by simp
qed

text \<open>
  Where the marker occurs exactly once (\<open>rest\<close> is what follows it), the constructor does
  what its comment says: the queue root is \<open>https://queue.\<close> followed by \<open>rest\<close>, the AI
  root is \<open>https://ai.\<close> followed by the same \<open>rest\<close>, and a URL without a scheme gives
  the facade that the same URL with \<open>https://\<close> in front gives.
\<close>

lemma roots_when_marker_occurs_once:
  assumes "remainder_after PREFIX_STORAGE_API_URL url = Some rest"
    and "\<not> sublist PREFIX_STORAGE_API_URL rest"
    and "KeboolaClient_init ev tok url w = (Inr c, w')"
  shows "queue_root c = PREFIX_QUEUE_API_URL @ rest
       \<and> ai_root c = PREFIX_AISERVICE_API_URL @ rest
       \<and> (\<not> startswith_any url [''http://'', ''https://''] \<longrightarrow>
            KeboolaClient_init ev tok (''https://'' @ url) w = (Inr c, w'))"
proof -
  have h: "hd (str_split PREFIX_STORAGE_API_URL rest) = rest"
    using assms(2) by (simp add: hd_split_whole marker_nonempty)
  have roots: "queue_root c = PREFIX_QUEUE_API_URL @ rest \<and> ai_root c = PREFIX_AISERVICE_API_URL @ rest"
    using assms(3) unfolding init_marker[OF assms(1)] h
    by (auto simp: Let_def queue_root_def ai_root_def client_simps split: sum.splits)
  have "KeboolaClient_init ev tok (''https://'' @ url) w = KeboolaClient_init ev tok url w"
    if "\<not> startswith_any url [''http://'', ''https://'']"
    using that by (simp add: KeboolaClient_init_def startswith_any_def startswith_def)
  with roots assms(3) show ?thesis by simp
qed

text \<open>
  C9. The claim asks for the queue root to be \<open>https://queue.\<close> followed by the remainder
  after the marker, and for the AI root to be \<open>https://ai.\<close> followed by the same remainder,
  as the constructor's own comment describes. The constructor takes
  \<open>split('connection.')[1]\<close> instead, which ends at the next occurrence of the marker: for
  \<open>https://connection.my-connection.keboola.cloud\<close> the remainder after the marker is
  \<open>my-connection.keboola.cloud\<close>, but the derived roots are \<open>https://queue.my-\<close> and
  \<open>https://ai.my-\<close>.
\<close>

theorem roots_cut_at_second_marker:
  "remainder_after PREFIX_STORAGE_API_URL ''https://connection.my-connection.keboola.cloud''
     = Some ''my-connection.keboola.cloud''
   \<and> map_sum id queue_root
       (fst (KeboolaClient_init sample_env ''token''
               ''https://connection.my-connection.keboola.cloud'' []))
       = Inr ''https://queue.my-''
   \<and> map_sum id ai_root
       (fst (KeboolaClient_init sample_env ''token''
               ''https://connection.my-connection.keboola.cloud'' []))
       = Inr ''https://ai.my-''
   \<and> map_sum id queue_root
       (fst (KeboolaClient_init sample_env ''token''
               ''https://connection.my-connection.keboola.cloud'' []))
       \<noteq> Inr (PREFIX_QUEUE_API_URL @ ''my-connection.keboola.cloud'')
   \<and> map_sum id ai_root
       (fst (KeboolaClient_init sample_env ''token''
               ''https://connection.my-connection.keboola.cloud'' []))
       \<noteq> Inr (PREFIX_AISERVICE_API_URL @ ''my-connection.keboola.cloud'')"
proof -
  have r: "remainder_after PREFIX_STORAGE_API_URL ''https://connection.my-connection.keboola.cloud''
     = Some ''my-connection.keboola.cloud''"
    by (simp add: PREFIX_STORAGE_API_URL_def)
  have h: "hd (str_split PREFIX_STORAGE_API_URL ''my-connection.keboola.cloud'') = ''my-''"
    by (simp add: PREFIX_STORAGE_API_URL_def)
  have q: "map_sum id queue_root
       (fst (KeboolaClient_init sample_env ''token''
               ''https://connection.my-connection.keboola.cloud'' []))
       = Inr ''https://queue.my-''"
    unfolding init_marker[OF r] h Let_def sample_sync_client_new
    by (simp add: queue_root_def client_simps PREFIX_QUEUE_API_URL_def)
  have a: "map_sum id ai_root
       (fst (KeboolaClient_init sample_env ''token''
               ''https://connection.my-connection.keboola.cloud'' []))
       = Inr ''https://ai.my-''"
    unfolding init_marker[OF r] h Let_def sample_sync_client_new
    by (simp add: ai_root_def client_simps PREFIX_AISERVICE_API_URL_def)
  show ?thesis
    unfolding q a using r by (simp add: PREFIX_QUEUE_API_URL_def PREFIX_AISERVICE_API_URL_def)
qed

text \<open>
  C10. The claim asks, for a URL supplied with the \<open>http://\<close> scheme as for any other, for
  roots that carry \<open>https://\<close> and consist of the fixed prefix followed by the remainder
  after the first occurrence of the marker. For
  \<open>http://connection.my-connection.keboola.cloud\<close> the derived roots do carry \<open>https://\<close>,
  but they are \<open>https://queue.my-\<close> and \<open>https://ai.my-\<close>: the remainder
  \<open>my-connection.keboola.cloud\<close> is cut at the second occurrence of the marker, by the
  same \<open>split('connection.')[1]\<close>.
\<close>

theorem http_roots_cut_at_second_marker:
  "remainder_after PREFIX_STORAGE_API_URL ''http://connection.my-connection.keboola.cloud''
     = Some ''my-connection.keboola.cloud''
   \<and> map_sum id queue_root
       (fst (KeboolaClient_init sample_env ''token''
               ''http://connection.my-connection.keboola.cloud'' []))
       = Inr ''https://queue.my-''
   \<and> map_sum id ai_root
       (fst (KeboolaClient_init sample_env ''token''
               ''http://connection.my-connection.keboola.cloud'' []))
       = Inr ''https://ai.my-''
   \<and> map_sum id queue_root
       (fst (KeboolaClient_init sample_env ''token''
               ''http://connection.my-connection.keboola.cloud'' []))
       \<noteq> Inr (''https://queue.'' @ ''my-connection.keboola.cloud'')
   \<and> map_sum id ai_root
       (fst (KeboolaClient_init sample_env ''token''
               ''http://connection.my-connection.keboola.cloud'' []))
       \<noteq> Inr (''https://ai.'' @ ''my-connection.keboola.cloud'')"
proof -
  have r: "remainder_after PREFIX_STORAGE_API_URL ''http://connection.my-connection.keboola.cloud''
     = Some ''my-connection.keboola.cloud''"
    by (simp add: PREFIX_STORAGE_API_URL_def)
  have h: "hd (str_split PREFIX_STORAGE_API_URL ''my-connection.keboola.cloud'') = ''my-''"
    by (simp add: PREFIX_STORAGE_API_URL_def)
  have q: "map_sum id queue_root
       (fst (KeboolaClient_init sample_env ''token''
               ''http://connection.my-connection.keboola.cloud'' []))
       = Inr ''https://queue.my-''"
    unfolding init_marker[OF r] h Let_def sample_sync_client_new
    by (simp add: queue_root_def client_simps PREFIX_QUEUE_API_URL_def)
  have a: "map_sum id ai_root
       (fst (KeboolaClient_init sample_env ''token''
               ''http://connection.my-connection.keboola.cloud'' []))
       = Inr ''https://ai.my-''"
    unfolding init_marker[OF r] h Let_def sample_sync_client_new
    by (simp add: ai_root_def client_simps PREFIX_AISERVICE_API_URL_def)
  show ?thesis unfolding q a using r by simp
qed

section \<open>The raw transport client and the job queue\<close>

lemma send_finish:
  "bind_io (send net q) finish w =
     ((case net w q of
         Inl e \<Rightarrow> Inl e
       | Inr r \<Rightarrow> (if is_success (status_code r) then response_json r
                   else Inl (HTTPStatusError (status_code r) (body_text r)))),
      w @ [Http q])"
  by (simp add: bind_io_def send_def finish_def lift_io_def raise_for_status_def
      split: sum.splits)

lemma raw_get_run:
  "raw_get net self endpoint params hdrs w =
     ((case net w (sent_request GET self endpoint hdrs params NoBody) of
         Inl e \<Rightarrow> Inl e
       | Inr r \<Rightarrow> (if is_success (status_code r) then response_json r
                   else Inl (HTTPStatusError (status_code r) (body_text r)))),
      w @ [Http (sent_request GET self endpoint hdrs params NoBody)])"
  by (simp add: raw_get_def Let_def send_finish sent_request_def)

lemma raw_post_run:
  "raw_post net self endpoint data hdrs w =
     ((case net w (sent_request POST self endpoint hdrs None (JsonBody (JObj (or_empty data)))) of
         Inl e \<Rightarrow> Inl e
       | Inr r \<Rightarrow> (if is_success (status_code r) then response_json r
                   else Inl (HTTPStatusError (status_code r) (body_text r)))),
      w @ [Http (sent_request POST self endpoint hdrs None (JsonBody (JObj (or_empty data))))])"
  by (simp add: raw_post_def Let_def send_finish sent_request_def)

lemma raw_put_run:
  "raw_put net self endpoint data hdrs w =
     ((case net w (sent_request PUT self endpoint hdrs None (FormData (JObj (or_empty data)))) of
         Inl e \<Rightarrow> Inl e
       | Inr r \<Rightarrow> (if is_success (status_code r) then response_json r
                   else Inl (HTTPStatusError (status_code r) (body_text r)))),
      w @ [Http (sent_request PUT self endpoint hdrs None (FormData (JObj (or_empty data))))])"
  by (simp add: raw_put_def Let_def send_finish sent_request_def)

lemma raw_delete_run:
  "raw_delete net self endpoint hdrs w =
     ((case net w (sent_request DELETE self endpoint hdrs None NoBody) of
         Inl e \<Rightarrow> Inl e
       | Inr r \<Rightarrow> (if is_success (status_code r) then response_json r
                   else Inl (HTTPStatusError (status_code r) (body_text r)))),
      w @ [Http (sent_request DELETE self endpoint hdrs None NoBody)])"
  by (simp add: raw_delete_def Let_def send_finish sent_request_def)

lemmas raw_runs = raw_get_run raw_post_run raw_put_run raw_delete_run


lemma sample_response_sel:
  "status_code (sample_response c j) = c"
  "body_text (sample_response c j) = ''body''"
  "body_json (sample_response c j) = j"
  by (simp_all add: sample_response_def)


text \<open>
  C5. \<open>put\<close> passes its payload with the keyword \<open>data=\<close>, so the request body is
  form-encoded, where \<open>post\<close> passes the same payload with \<open>json=\<close> and sends a JSON body.
\<close>

theorem put_payload_is_form_encoded:
  "map req_body (http_requests (snd
      (raw_put (sample_net 200 (Some (JObj []))) sample_raw ''configs/1''
         (Some [(''name'', JStr ''x'')]) None [])))
     = [FormData (JObj [(''name'', JStr ''x'')])]
 \<and> map req_body (http_requests (snd
      (raw_post (sample_net 200 (Some (JObj []))) sample_raw ''configs/1''
         (Some [(''name'', JStr ''x'')]) None [])))
     = [JsonBody (JObj [(''name'', JStr ''x'')])]"
  by (simp add: raw_runs sent_request_def or_empty_def)

lemma drop_none_keys: "fst ` set (drop_none xs) \<subseteq> fst ` set xs"
  by (induction xs rule: drop_none.induct) auto

lemma map_of_drop_none:
  "distinct (map fst xs) \<Longrightarrow>
     map_of (drop_none xs) k = (case map_of xs k of Some (Some v) \<Rightarrow> Some v | _ \<Rightarrow> None)"
proof (induction xs rule: drop_none.induct)
  case 1
  then show ?case by simp
next
  case (2 k' kvs)
  then have "k' \<notin> fst ` set (drop_none kvs)" using drop_none_keys[of kvs] by auto
  then have "map_of (drop_none kvs) k' = None" by (simp add: map_of_eq_None_iff)
  with 2 show ?case by auto
next
  case (3 k' v kvs)
  then show ?case by auto
qed

lemma distinct_drop_none: "distinct (map fst xs) \<Longrightarrow> distinct (map fst (drop_none xs))"
proof (induction xs rule: drop_none.induct)
  case (3 k v kvs)
  then show ?case using drop_none_keys[of kvs] by auto
qed auto

lemma search_jobs_args_keys:
  "map fst (search_jobs_args component_id config_id status limit offset sort_by sort_order)
     = [''componentId'', ''configId'', ''status'', ''limit'', ''offset'', ''sortBy'', ''sortOrder'']"
  by (simp add: search_jobs_args_def)

lemma search_jobs_args_distinct:
  "distinct (map fst (search_jobs_args component_id config_id status limit offset sort_by sort_order))"
  unfolding search_jobs_args_keys by simp

text \<open>
  C2. For every combination of arguments, \<open>search_jobs_by\<close> adds exactly one request to the
  trace, a GET to \<open>search/jobs\<close> whose query mapping holds \<open>componentId\<close>, \<open>configId\<close>,
  \<open>status\<close>, \<open>sortBy\<close> and \<open>sortOrder\<close> exactly when the corresponding argument is not
  \<open>None\<close>, with the argument's value, always holds \<open>limit\<close> and \<open>offset\<close>, and holds no
  other key and no key twice. For \<open>component_id="ex-1"\<close>, \<open>status=["success"]\<close>,
  \<open>limit=10\<close> and the defaults, the mapping is the six entries of the scenario.
\<close>

theorem search_jobs_by_query:
  fixes self :: KeboolaServiceClient
  defines "ps \<equiv> \<lambda>component_id config_id status limit offset sort_by sort_order.
     drop_none (search_jobs_args component_id config_id status limit offset sort_by sort_order)"
  shows "snd (search_jobs_by net self component_id config_id status limit offset sort_by sort_order w)
       = w @ [Http (sent_request GET (raw_client self) ''search/jobs'' None
                     (Some (ps component_id config_id status limit offset sort_by sort_order)) NoBody)]
   \<and> map_of (ps component_id config_id status limit offset sort_by sort_order) ''componentId''
       = map_option JStr component_id
   \<and> map_of (ps component_id config_id status limit offset sort_by sort_order) ''configId''
       = map_option JStr config_id
   \<and> map_of (ps component_id config_id status limit offset sort_by sort_order) ''status''
       = map_option (\<lambda>xs. JList (map JStr xs)) status
   \<and> map_of (ps component_id config_id status limit offset sort_by sort_order) ''limit''
       = Some (JInt limit)
   \<and> map_of (ps component_id config_id status limit offset sort_by sort_order) ''offset''
       = Some (JInt offset)
   \<and> map_of (ps component_id config_id status limit offset sort_by sort_order) ''sortBy''
       = map_option JStr sort_by
   \<and> map_of (ps component_id config_id status limit offset sort_by sort_order) ''sortOrder''
       = map_option JStr sort_order
   \<and> set (map fst (ps component_id config_id status limit offset sort_by sort_order))
       \<subseteq> {''componentId'', ''configId'', ''status'', ''limit'', ''offset'', ''sortBy'', ''sortOrder''}
   \<and> distinct (map fst (ps component_id config_id status limit offset sort_by sort_order))
   \<and> ps (Some ''ex-1'') None (Some [''success'']) 10 0 (Some ''startTime'') (Some ''desc'')
       = [(''componentId'', JStr ''ex-1''), (''status'', JList [JStr ''success'']),
          (''limit'', JInt 10), (''offset'', JInt 0),
          (''sortBy'', JStr ''startTime''), (''sortOrder'', JStr ''desc'')]"
proof -
  let ?args = "search_jobs_args component_id config_id status limit offset sort_by sort_order"
  have d: "distinct (map fst ?args)" by (rule search_jobs_args_distinct)
  have m: "\<And>k. map_of (drop_none ?args) k = (case map_of ?args k of Some (Some v) \<Rightarrow> Some v | _ \<Rightarrow> None)"
    by (rule map_of_drop_none[OF d])
  have keys: "set (map fst (drop_none ?args))
       \<subseteq> {''componentId'', ''configId'', ''status'', ''limit'', ''offset'', ''sortBy'', ''sortOrder''}"
  proof -
    have "set (map fst (drop_none ?args)) \<subseteq> set (map fst ?args)"
      using drop_none_keys[of ?args] by simp
    then show ?thesis unfolding search_jobs_args_keys by simp
  qed
  have run: "snd (search_jobs_by net self component_id config_id status limit offset sort_by sort_order w)
       = w @ [Http (sent_request GET (raw_client self) ''search/jobs'' None (Some (drop_none ?args)) NoBody)]"
    by (simp add: search_jobs_by_def search_def raw_get_run)
  have lookups:
    "map_of (drop_none ?args) ''componentId'' = map_option JStr component_id"
    "map_of (drop_none ?args) ''configId'' = map_option JStr config_id"
    "map_of (drop_none ?args) ''status'' = map_option (\<lambda>xs. JList (map JStr xs)) status"
    "map_of (drop_none ?args) ''limit'' = Some (JInt limit)"
    "map_of (drop_none ?args) ''offset'' = Some (JInt offset)"
    "map_of (drop_none ?args) ''sortBy'' = map_option JStr sort_by"
    "map_of (drop_none ?args) ''sortOrder'' = map_option JStr sort_order"
    unfolding m by (simp_all add: search_jobs_args_def split: option.splits)
  have scen: "drop_none (search_jobs_args (Some ''ex-1'') None (Some [''success'']) 10 0 (Some ''startTime'') (Some ''desc''))
       = [(''componentId'', JStr ''ex-1''), (''status'', JList [JStr ''success'']),
          (''limit'', JInt 10), (''offset'', JInt 0),
          (''sortBy'', JStr ''startTime''), (''sortOrder'', JStr ''desc'')]"
    by (simp add: search_jobs_args_def)
  show ?thesis
    unfolding ps_def using run lookups keys distinct_drop_none[OF d] scen by simp
qed

section \<open>Properties of the component tools\<close>

lemmas io_simps = bind_io_def lift_io_def return_io_def raise_io_def emit_def catch_io_def

text \<open>
  C8. With a non-empty list of ids, \<open>retrieve_components_configurations\<close> retrieves by those
  ids only: the outcome and the trace are those of the retrieval by ids, and they are the
  same whatever component types are passed (the types are not even normalised). The
  retrieval by types runs only when the list of ids is empty. The same holds for
  \<open>retrieve_transformations_configurations\<close>, whose type is fixed to \<open>transformation\<close>.
  In each case exactly one of the two retrievals is recorded.
\<close>

theorem explicit_ids_win:
  "(component_ids \<noteq> [] \<longrightarrow>
      retrieve_components_configurations ev ctx component_types component_ids w
        = (case from_state (session_state ctx) of
             Inl e \<Rightarrow> (Inl e, w)
           | Inr client \<Rightarrow> (retrieve_by_ids ev w client component_ids,
                            w @ [RetrieveByIds component_ids]))
      \<and> retrieve_components_configurations ev ctx component_types component_ids w
        = retrieve_components_configurations ev ctx other_types component_ids w)
 \<and> (component_ids = [] \<longrightarrow>
      retrieve_components_configurations ev ctx component_types component_ids w
        = (case from_state (session_state ctx) of
             Inl e \<Rightarrow> (Inl e, w)
           | Inr client \<Rightarrow>
               (case handle_component_types ev component_types of
                  Inl e \<Rightarrow> (Inl e, w)
                | Inr types \<Rightarrow> (retrieve_by_types ev w client types,
                               w @ [RetrieveByTypes types]))))
 \<and> (transformation_ids \<noteq> [] \<longrightarrow>
      retrieve_transformations_configurations ev ctx transformation_ids w
        = (case from_state (session_state ctx) of
             Inl e \<Rightarrow> (Inl e, w)
           | Inr client \<Rightarrow> (retrieve_by_ids ev w client transformation_ids,
                            w @ [RetrieveByIds transformation_ids])))
 \<and> (transformation_ids = [] \<longrightarrow>
      retrieve_transformations_configurations ev ctx transformation_ids w
        = (case from_state (session_state ctx) of
             Inl e \<Rightarrow> (Inl e, w)
           | Inr client \<Rightarrow> (retrieve_by_types ev w client [''transformation''],
                            w @ [RetrieveByTypes [''transformation'']])))"
  by (simp add: retrieve_components_configurations_def retrieve_transformations_configurations_def
      retrieve_components_configurations_by_ids_def retrieve_components_configurations_by_types_def
      io_simps split: sum.splits)

text \<open>Both tools with one id and with none, in the sample environment.\<close>

theorem explicit_ids_win_witness:
  "retrieve_components_configurations sample_env sample_ctx [''extractor''] [''keboola.ex-db''] []
     = (Inr (JList [JStr ''keboola.ex-db'']), [RetrieveByIds [''keboola.ex-db'']])
 \<and> retrieve_components_configurations sample_env sample_ctx [''extractor''] [''keboola.ex-db''] []
     = retrieve_components_configurations sample_env sample_ctx [''writer''] [''keboola.ex-db''] []
 \<and> retrieve_components_configurations sample_env sample_ctx [''extractor''] [] []
     = (Inr (JList [JStr ''extractor'']), [RetrieveByTypes [''extractor'']])
 \<and> retrieve_transformations_configurations sample_env sample_ctx [''keboola.snowflake-transformation''] []
     = (Inr (JList [JStr ''keboola.snowflake-transformation'']),
        [RetrieveByIds [''keboola.snowflake-transformation'']])
 \<and> retrieve_transformations_configurations sample_env sample_ctx [] []
     = (Inr (JList [JStr ''transformation'']), [RetrieveByTypes [''transformation'']])"
proof -
  note A = explicit_ids_win[where ev=sample_env and ctx=sample_ctx and component_types="[''extractor'']"
      and component_ids="[''keboola.ex-db'']" and other_types="[''writer'']" and w="[]"
      and transformation_ids="[''keboola.snowflake-transformation'']"]
  note B = explicit_ids_win[where ev=sample_env and ctx=sample_ctx and component_types="[''extractor'']"
      and component_ids="[]" and other_types="[''writer'']" and w="[]"
      and transformation_ids="[]"]
  from A B show ?thesis
    by (auto simp: sample_from_state sample_env_simps)
qed

lemma composite_metadata:
  "map_of (composite_fields items component component_id m) ''metadata'' = Some m"
  by (simp add: composite_fields_def update_conv')

lemma details_run:
  assumes "from_state (session_state ctx) = Inr client"
  shows "get_component_configuration_details ev component_id configuration_id ctx w =
    (let w1 = w @ [ComponentLookup component_id];
         w2 = w1 @ [SyncConfigurationDetail component_id configuration_id];
         w3 = w2 @ [LogInfo (''Retrieved configuration details for '' @ component_id
                @ '' component with configuration '' @ configuration_id @ ''.'')];
         q = sent_request GET (raw_client (storage_client client))
               (metadata_endpoint client component_id configuration_id) None None NoBody
     in case component_details ev w client component_id of
          Inl e \<Rightarrow> (Inl e, w1)
        | Inr component \<Rightarrow>
           (case configurations_detail ev w1 (storage_client_sync client) component_id configuration_id of
              Inl e \<Rightarrow> (Inl e, w2)
            | Inr raw \<Rightarrow>
               (case fst (raw_get (network ev) (raw_client (storage_client client))
                           (metadata_endpoint client component_id configuration_id) None None w3) of
                  Inl e \<Rightarrow> (Inl e, w3 @ [Http q])
                | Inr m \<Rightarrow>
                   (let w5 = w3 @ [Http q, LogInfo
                          (if truthy m
                           then ''Retrieved configuration metadata for '' @ component_id
                                  @ '' component with configuration '' @ configuration_id @ ''.''
                           else ''No metadata found for '' @ component_id
                                  @ '' component with configuration '' @ configuration_id @ ''.'')]
                    in case mapping_items raw of
                         Inl e \<Rightarrow> (Inl e, w5)
                       | Inr items \<Rightarrow>
                           (ComponentConfiguration_new ev
                              (composite_fields items component component_id m), w5)))))"
  using assms
  by (simp add: get_component_configuration_details_def io_simps get_component_details_def
      sync_configurations_detail_def service_get_def raw_get_run Let_def composite_fields_def
      split: sum.splits)

text \<open>
  C1. With the client found in the session state: when the component look-up fails, or it
  succeeds and the fetch of the configuration body fails, the operation fails with that
  same error; whenever a composite is returned, both fetches had succeeded. When both
  succeed and the metadata request is answered 2xx with an empty (falsy) value \<open>m\<close>, no
  error arises from the emptiness: the dictionary handed to validation has \<open>metadata\<close>
  set to \<open>m\<close>, and the composite that validation makes of it is returned.
\<close>

theorem composite_needs_both_fetches:
  fixes ev :: env and client :: KeboolaClient and component_id configuration_id :: string
    and w :: trace
  defines "w1 \<equiv> w @ [ComponentLookup component_id]"
    and "w3 \<equiv> w @ [ComponentLookup component_id,
                    SyncConfigurationDetail component_id configuration_id,
                    LogInfo (''Retrieved configuration details for '' @ component_id
                      @ '' component with configuration '' @ configuration_id @ ''.'')]"
    and "q \<equiv> sent_request GET (raw_client (storage_client client))
                (metadata_endpoint client component_id configuration_id) None None NoBody"
  assumes st: "from_state (session_state ctx) = Inr client"
  shows
   "(component_details ev w client component_id = Inl e \<longrightarrow>
       fst (get_component_configuration_details ev component_id configuration_id ctx w) = Inl e)
  \<and> (component_details ev w client component_id = Inr component
       \<and> configurations_detail ev w1 (storage_client_sync client) component_id configuration_id
            = Inl e \<longrightarrow>
       fst (get_component_configuration_details ev component_id configuration_id ctx w) = Inl e)
  \<and> (fst (get_component_configuration_details ev component_id configuration_id ctx w)
        = Inr composite \<longrightarrow>
       (\<exists>c raw. component_details ev w client component_id = Inr c
          \<and> configurations_detail ev w1 (storage_client_sync client) component_id
               configuration_id = Inr raw))
  \<and> (component_details ev w client component_id = Inr component
       \<and> configurations_detail ev w1 (storage_client_sync client) component_id configuration_id
            = Inr (JObj items)
       \<and> network ev w3 q = Inr r \<and> is_success (status_code r) \<and> body_json r = Some m
       \<and> \<not> truthy m
       \<and> ComponentConfiguration_new ev (composite_fields items component component_id m)
            = Inr composite \<longrightarrow>
       fst (get_component_configuration_details ev component_id configuration_id ctx w)
         = Inr composite
       \<and> map_of (composite_fields items component component_id m) ''metadata'' = Some m)"
  unfolding details_run[OF st] w1_def w3_def q_def
  by (auto simp: Let_def raw_get_run response_json_def mapping_items_def composite_metadata
      split: sum.splits)

text \<open>
  A failing component look-up, a failing configuration fetch, and an empty metadata
  answer, in the sample environment.
\<close>

theorem composite_needs_both_fetches_witness:
  "fst (get_component_configuration_details (sample_env\<lparr> component_details := failing_lookup \<rparr>)
          ''keboola.ex-db'' ''7'' sample_ctx [])
     = Inl (HTTPStatusError 404 ''component not found'')
 \<and> fst (get_component_configuration_details (sample_env\<lparr> configurations_detail := failing_detail \<rparr>)
          ''keboola.ex-db'' ''7'' sample_ctx [])
     = Inl (HTTPStatusError 404 ''configuration not found'')
 \<and> fst (get_component_configuration_details
          (sample_env\<lparr> network := sample_net 200 (Some (JList [])) \<rparr>)
          ''keboola.ex-db'' ''7'' sample_ctx [])
     = Inr (JObj [(''id'', JStr ''7''),
                  (''component'', JObj [(''id'', JStr ''keboola.ex-db'')]),
                  (''component_id'', JStr ''keboola.ex-db''),
                  (''metadata'', JList [])])"
proof -
  let ?r = "sample_response 200 (Some (JList []))"
  note A = composite_needs_both_fetches[where ev="sample_env\<lparr> component_details := failing_lookup \<rparr>"
      and ctx=sample_ctx and client=sample_client and component_id="''keboola.ex-db''"
      and configuration_id="''7''" and w="[]"
      and e="HTTPStatusError 404 ''component not found''", OF sample_from_state]
  note B = composite_needs_both_fetches[where ev="sample_env\<lparr> configurations_detail := failing_detail \<rparr>"
      and ctx=sample_ctx and client=sample_client and component_id="''keboola.ex-db''"
      and configuration_id="''7''" and w="[]"
      and component="JObj [(''id'', JStr ''keboola.ex-db'')]"
      and e="HTTPStatusError 404 ''configuration not found''", OF sample_from_state]
  note C = composite_needs_both_fetches[where ev="sample_env\<lparr> network := sample_net 200 (Some (JList [])) \<rparr>"
      and ctx=sample_ctx and client=sample_client and component_id="''keboola.ex-db''"
      and configuration_id="''7''" and w="[]"
      and component="JObj [(''id'', JStr ''keboola.ex-db'')]"
      and items="[(''id'', JStr ''7'')]" and r="?r" and m="JList []"
      and composite="JObj [(''id'', JStr ''7''),
                  (''component'', JObj [(''id'', JStr ''keboola.ex-db'')]),
                  (''component_id'', JStr ''keboola.ex-db''),
                  (''metadata'', JList [])]", OF sample_from_state]
  have a: "fst (get_component_configuration_details (sample_env\<lparr> component_details := failing_lookup \<rparr>)
          ''keboola.ex-db'' ''7'' sample_ctx [])
     = Inl (HTTPStatusError 404 ''component not found'')"
    using A by (simp add: failing_lookup_def)
  have b: "fst (get_component_configuration_details (sample_env\<lparr> configurations_detail := failing_detail \<rparr>)
          ''keboola.ex-db'' ''7'' sample_ctx [])
     = Inl (HTTPStatusError 404 ''configuration not found'')"
    using B by (simp add: failing_detail_def sample_env_simps)
  have c: "fst (get_component_configuration_details
          (sample_env\<lparr> network := sample_net 200 (Some (JList [])) \<rparr>)
          ''keboola.ex-db'' ''7'' sample_ctx [])
     = Inr (JObj [(''id'', JStr ''7''),
                  (''component'', JObj [(''id'', JStr ''keboola.ex-db'')]),
                  (''component_id'', JStr ''keboola.ex-db''),
                  (''metadata'', JList [])])"
    using C by (simp add: sample_env_simps sample_net_def sample_response_sel is_success_def
        composite_fields_def)
  from a b c show ?thesis by simp
qed

section \<open>Creating configurations\<close>

lemma http_requests_append: "http_requests (a @ b) = http_requests a @ http_requests b"
  by (induction a rule: http_requests.induct) auto

lemma generate_calls_append: "generate_calls (a @ b) = generate_calls a @ generate_calls b"
  by (induction a rule: generate_calls.induct) auto

lemma or_empty_Some: "or_empty (Some d) = d"
  by (simp add: or_empty_def)

lemma try_post_compose:
  "catch_io
     (bind_io (service_post net sc endpoint (Some data)) (\<lambda>raw.
      bind_io (get_component_details ev client cid) (\<lambda>component.
      bind_io (lift_io (call_kwargs raw (kws component))) (\<lambda>kwargs.
      bind_io (lift_io (validate kwargs)) (\<lambda>cfg.
      bind_io (emit (LogInfo (msg cfg))) (\<lambda>_. return_io cfg))))))
     (\<lambda>e. bind_io (emit (LogException err e)) (\<lambda>_. raise_io e)) w0
   = (let w1 = w0 @ [Http (sent_request POST (raw_client sc) endpoint None None
                            (JsonBody (JObj data)))]
      in case fst (service_post net sc endpoint (Some data) w0) of
           Inl e \<Rightarrow> (Inl e, w1 @ [LogException err e])
         | Inr raw \<Rightarrow>
            (case component_details ev w1 client cid of
               Inl e \<Rightarrow> (Inl e, w1 @ [ComponentLookup cid, LogException err e])
             | Inr component \<Rightarrow>
                (case call_kwargs raw (kws component) of
                   Inl e \<Rightarrow> (Inl e, w1 @ [ComponentLookup cid, LogException err e])
                 | Inr kwargs \<Rightarrow>
                    (case validate kwargs of
                       Inl e \<Rightarrow> (Inl e, w1 @ [ComponentLookup cid, LogException err e])
                     | Inr cfg \<Rightarrow> (Inr cfg, w1 @ [ComponentLookup cid, LogInfo (msg cfg)])))))"
  by (simp add: io_simps service_post_def raw_post_run or_empty_Some get_component_details_def
      Let_def split: sum.splits)

lemma resolve_script_supplied:
  "s \<noteq> [] \<Longrightarrow> resolve_script ev name description user_query (Some s) w = (Inr s, w)"
  by (simp add: resolve_script_def return_io_def)

lemma create_data_app_run:
  assumes "from_state (session_state ctx) = Inr client"
    and "resolve_script ev name description user_query script w = (Inr s', w0)"
    and "DataApp_new ev (data_app_kwargs slug s' app_size auto sc) = Inr da"
  shows "create_data_app ev ctx name description slug user_query script app_size auto sc w =
    (let cid = ''keboola.app-data-app'';
         err = ''Error when creating new data app configuration: '';
         w1 = w0 @ [Http (data_app_post ev client name description slug s' app_size auto da)]
     in case fst (service_post (network ev) (storage_client client) (configs_endpoint client cid)
                    (Some (data_app_configuration ev name description slug s' app_size auto da)) w0) of
          Inl e \<Rightarrow> (Inl e, w1 @ [LogException err e])
        | Inr raw \<Rightarrow>
           (case component_details ev w1 client cid of
              Inl e \<Rightarrow> (Inl e, w1 @ [ComponentLookup cid, LogException err e])
            | Inr component \<Rightarrow>
               (case call_kwargs raw [(''component_id'', JStr cid), (''component'', component),
                                      (''data_app'', da),
                                      (''authorization'', data_app_authorization)] of
                  Inl e \<Rightarrow> (Inl e, w1 @ [ComponentLookup cid, LogException err e])
                | Inr kwargs \<Rightarrow>
                   (case DataAppConfiguration_new ev kwargs of
                      Inl e \<Rightarrow> (Inl e, w1 @ [ComponentLookup cid, LogException err e])
                    | Inr cfg \<Rightarrow>
                        (Inr cfg, w1 @ [ComponentLookup cid,
                           LogInfo (''Created new data app \"'' @ name
                             @ ''\" with configuration id \"''
                             @ configuration_id_text cfg @ ''\".'')])))))"
  using assms
  by (simp add: create_data_app_def bind_io_def[of "lift_io x" for x]
      bind_io_def[of "resolve_script a b c d e" for a b c d e] lift_io_def Let_def
      try_post_compose data_app_post_def split: sum.splits)


lemma create_data_app_no_client:
  "from_state (session_state ctx) = Inl e \<Longrightarrow>
     create_data_app ev ctx name description slug user_query script app_size auto sc w = (Inl e, w)"
  by (simp add: create_data_app_def bind_io_def lift_io_def)

lemma create_data_app_no_model:
  assumes "from_state (session_state ctx) = Inr client"
    and "resolve_script ev name description user_query script w = (Inr s', w0)"
    and "DataApp_new ev (data_app_kwargs slug s' app_size auto sc) = Inl e"
  shows "create_data_app ev ctx name description slug user_query script app_size auto sc w
           = (Inl e, w0)"
  using assms
  by (simp add: create_data_app_def bind_io_def[of "lift_io x" for x]
      bind_io_def[of "resolve_script a b c d e" for a b c d e] lift_io_def)

lemma posted_script_and_id:
  "json_path (JObj (data_app_configuration ev name description slug s app_size auto da))
     [''configuration'', ''parameters'', ''script''] = Some (JList (map JStr s))"
  "json_path (JObj (data_app_configuration ev name description slug s app_size auto da))
     [''configuration'', ''parameters'', ''id''] = Some (JStr slug)"
  by (simp_all add: data_app_configuration_def)

lemma data_app_post_sel:
  "req_method (data_app_post ev client name description slug s app_size auto da) = POST"
  "req_body (data_app_post ev client name description slug s app_size auto da)
     = JsonBody (JObj (data_app_configuration ev name description slug s app_size auto da))"
  by (simp_all add: data_app_post_def sent_request_def)

lemma create_data_app_requests:
  assumes "from_state (session_state ctx) = Inr client"
    and "resolve_script ev name description user_query script w = (Inr s', w0)"
    and "DataApp_new ev (data_app_kwargs slug s' app_size auto sc) = Inr da"
  shows "http_requests (snd (create_data_app ev ctx name description slug user_query script
                               app_size auto sc w))
           = http_requests w0 @ [data_app_post ev client name description slug s' app_size auto da]"
    and "generate_calls (snd (create_data_app ev ctx name description slug user_query script
                               app_size auto sc w))
           = generate_calls w0"
  unfolding create_data_app_run[OF assms]
  by (simp_all add: Let_def http_requests_append generate_calls_append split: sum.splits)

text \<open>
  C6. When \<open>create_data_app\<close> is given a non-empty script, the generative capability is not
  called (no call is added to the trace), and every request the operation sends is a POST
  whose JSON body has \<open>configuration.parameters.script\<close> equal to the supplied script and
  \<open>configuration.parameters.id\<close> equal to the supplied slug. When the client is in the
  session state and the \<open>DataApp\<close> model accepts the arguments, exactly one such POST is
  sent.
\<close>

theorem supplied_script_is_posted:
  assumes "s \<noteq> []"
  shows "generate_calls (snd (create_data_app ev ctx name description slug user_query (Some s)
                               app_size auto_suspend_after_seconds streamlit_config w))
           = generate_calls w
   \<and> (\<exists>qs. http_requests (snd (create_data_app ev ctx name description slug user_query (Some s)
                                   app_size auto_suspend_after_seconds streamlit_config w))
               = http_requests w @ qs
            \<and> (\<forall>q\<in>set qs. req_method q = POST
                  \<and> (\<exists>cfg. req_body q = JsonBody cfg
                        \<and> json_path cfg [''configuration'', ''parameters'', ''script'']
                            = Some (JList (map JStr s))
                        \<and> json_path cfg [''configuration'', ''parameters'', ''id'']
                            = Some (JStr slug))))
   \<and> (from_state (session_state ctx) = Inr client
        \<and> DataApp_new ev (data_app_kwargs slug s app_size auto_suspend_after_seconds
                             streamlit_config) = Inr data_app \<longrightarrow>
        http_requests (snd (create_data_app ev ctx name description slug user_query (Some s)
                              app_size auto_suspend_after_seconds streamlit_config w))
          = http_requests w @ [data_app_post ev client name description slug s app_size
                                 auto_suspend_after_seconds data_app])"
proof -
  let ?run = "create_data_app ev ctx name description slug user_query (Some s)
                app_size auto_suspend_after_seconds streamlit_config w"
  let ?P = "\<lambda>q. req_method q = POST
                  \<and> (\<exists>cfg. req_body q = JsonBody cfg
                        \<and> json_path cfg [''configuration'', ''parameters'', ''script'']
                            = Some (JList (map JStr s))
                        \<and> json_path cfg [''configuration'', ''parameters'', ''id'']
                            = Some (JStr slug))"
  note rs = resolve_script_supplied[OF assms, of ev name description user_query w]
  have none: "generate_calls (snd ?run) = generate_calls w
      \<and> (\<exists>qs. http_requests (snd ?run) = http_requests w @ qs \<and> (\<forall>q\<in>set qs. ?P q))"
    if "snd ?run = w"
    using that by simp
  have main: "generate_calls (snd ?run) = generate_calls w
      \<and> (\<exists>qs. http_requests (snd ?run) = http_requests w @ qs \<and> (\<forall>q\<in>set qs. ?P q))"
  proof (cases "from_state (session_state ctx)")
    case (Inl e)
    from create_data_app_no_client[OF Inl] show ?thesis by (intro none) simp
  next
    case (Inr c)
    show ?thesis
    proof (cases "DataApp_new ev (data_app_kwargs slug s app_size auto_suspend_after_seconds
                                    streamlit_config)")
      case (Inl e)
      from create_data_app_no_model[OF Inr rs Inl] show ?thesis by (intro none) simp
    next
      case da: (Inr da)
      from create_data_app_requests[OF Inr rs da] show ?thesis
        by (simp add: data_app_post_sel posted_script_and_id del: json_path.simps)
    qed
  qed
  have exact: "http_requests (snd ?run) = http_requests w @ [data_app_post ev client name
                 description slug s app_size auto_suspend_after_seconds data_app]"
    if "from_state (session_state ctx) = Inr client"
      and "DataApp_new ev (data_app_kwargs slug s app_size auto_suspend_after_seconds
                             streamlit_config) = Inr data_app"
    using create_data_app_requests(1)[OF that(1) rs that(2)] .
  from main exact show ?thesis by blast
qed

text \<open>
  The scenario \<open>create_data_app(name="Sales", description="...", slug="sales-app",
  script=["print(1)"])\<close> in the sample environment.
\<close>

theorem supplied_script_is_posted_witness:
  "generate_calls (snd (create_data_app sample_env sample_ctx ''Sales'' ''...'' ''sales-app'' None
                          (Some [''print(1)'']) ''tiny'' 900 None []))
     = []
 \<and> http_requests (snd (create_data_app sample_env sample_ctx ''Sales'' ''...'' ''sales-app'' None
                          (Some [''print(1)'']) ''tiny'' 900 None []))
     = [data_app_post sample_env sample_client ''Sales'' ''...'' ''sales-app'' [''print(1)'']
          ''tiny'' 900 (JObj (data_app_kwargs ''sales-app'' [''print(1)''] ''tiny'' 900 None))]
 \<and> json_path (JObj (data_app_configuration sample_env ''Sales'' ''...'' ''sales-app''
                       [''print(1)''] ''tiny'' 900
                       (JObj (data_app_kwargs ''sales-app'' [''print(1)''] ''tiny'' 900 None))))
       [''configuration'', ''parameters'', ''script''] = Some (JList [JStr ''print(1)''])
 \<and> json_path (JObj (data_app_configuration sample_env ''Sales'' ''...'' ''sales-app''
                       [''print(1)''] ''tiny'' 900
                       (JObj (data_app_kwargs ''sales-app'' [''print(1)''] ''tiny'' 900 None))))
       [''configuration'', ''parameters'', ''id''] = Some (JStr ''sales-app'')"
proof -
  let ?da = "JObj (data_app_kwargs ''sales-app'' [''print(1)''] ''tiny'' 900 None)"
  let ?run = "create_data_app sample_env sample_ctx ''Sales'' ''...'' ''sales-app'' None
                (Some [''print(1)'']) ''tiny'' 900 None []"
  let ?post = "data_app_post sample_env sample_client ''Sales'' ''...'' ''sales-app''
                 [''print(1)''] ''tiny'' 900 ?da"
  have ne: "[''print(1)''] \<noteq> []" by simp
  note T = supplied_script_is_posted[OF ne, where ev=sample_env and ctx=sample_ctx
      and name="''Sales''" and description="''...''" and slug="''sales-app''"
      and user_query=None and app_size="''tiny''" and auto_suspend_after_seconds=900
      and streamlit_config=None and w="[]" and client=sample_client and data_app="?da"]
  from T have g: "generate_calls (snd ?run) = []" by simp
  from T have h: "http_requests (snd ?run) = [?post]"
    by (simp add: sample_from_state sample_DataApp_new)
  from T obtain qs where qs: "http_requests (snd ?run) = qs"
    and P: "\<forall>q\<in>set qs. \<exists>cfg. req_body q = JsonBody cfg
              \<and> json_path cfg [''configuration'', ''parameters'', ''script'']
                  = Some (JList (map JStr [''print(1)'']))
              \<and> json_path cfg [''configuration'', ''parameters'', ''id'']
                  = Some (JStr ''sales-app'')"
    by auto
  from qs h have "qs = [?post]" by (simp only:)
  then have "?post \<in> set qs" by simp
  with P obtain cfg where "req_body ?post = JsonBody cfg"
    and "json_path cfg [''configuration'', ''parameters'', ''script'']
           = Some (JList (map JStr [''print(1)'']))"
    and "json_path cfg [''configuration'', ''parameters'', ''id''] = Some (JStr ''sales-app'')"
    by blast
  then have j: "json_path (JObj (data_app_configuration sample_env ''Sales'' ''...'' ''sales-app''
                       [''print(1)''] ''tiny'' 900 ?da))
       [''configuration'', ''parameters'', ''script''] = Some (JList [JStr ''print(1)''])"
    "json_path (JObj (data_app_configuration sample_env ''Sales'' ''...'' ''sales-app''
                       [''print(1)''] ''tiny'' 900 ?da))
       [''configuration'', ''parameters'', ''id''] = Some (JStr ''sales-app'')"
    by (simp_all add: data_app_post_sel del: json_path.simps)
  from g h j show ?thesis by (simp del: json_path.simps)
qed

lemma bind_lift_Inr: "bind_io (lift_io (Inr x)) f = f x"
  by (rule ext) (simp add: bind_io_def lift_io_def)

lemma bind_lift_Inl: "bind_io (lift_io (Inl e)) f w = (Inl e, w)"
  by (simp add: bind_io_def lift_io_def)

lemma bind_emit: "bind_io (emit x) f w = f () (w @ [x])"
  by (simp add: bind_io_def emit_def)

lemma bind_get_sql_dialect:
  "bind_io (get_sql_dialect ev ctx) f w =
     (case sql_dialect ev w ctx of
        Inl e \<Rightarrow> (Inl e, w @ [DialectLookup])
      | Inr d \<Rightarrow> f d (w @ [DialectLookup]))"
  by (simp add: bind_io_def get_sql_dialect_def split: sum.splits)

lemma create_sql_transformation_run:
  assumes "sql_dialect ev w ctx = Inr d"
    and "transformation_id_from_dialect ev d = Inr tid"
    and "transformation_configuration ev stmts name tables = Inr payload"
    and "from_state (session_state ctx) = Inr client"
  shows "create_sql_transformation ev ctx name description stmts tables w =
    (let err = ''Error when creating new transformation configuration: '';
         w0 = w @ transformation_log_prefix d tid name;
         w1 = w0 @ [Http (transformation_post ev client tid name description payload)]
     in case fst (service_post (network ev) (storage_client client) (configs_endpoint client tid)
                    (Some (transformation_body ev name description payload)) w0) of
          Inl e \<Rightarrow> (Inl e, w1 @ [LogException err e])
        | Inr raw \<Rightarrow>
           (case component_details ev w1 client tid of
              Inl e \<Rightarrow> (Inl e, w1 @ [ComponentLookup tid, LogException err e])
            | Inr component \<Rightarrow>
               (case call_kwargs raw [(''component_id'', JStr tid), (''component'', component)] of
                  Inl e \<Rightarrow> (Inl e, w1 @ [ComponentLookup tid, LogException err e])
                | Inr kwargs \<Rightarrow>
                   (case ComponentConfiguration_new ev kwargs of
                      Inl e \<Rightarrow> (Inl e, w1 @ [ComponentLookup tid, LogException err e])
                    | Inr cfg \<Rightarrow>
                        (Inr cfg, w1 @ [ComponentLookup tid,
                           LogInfo (''Created new transformation \"'' @ tid
                             @ ''\" with configuration id \"''
                             @ configuration_id_text cfg @ ''\".'')])))))"
proof -
  have pre: "create_sql_transformation ev ctx name description stmts tables w =
    catch_io
       (bind_io (service_post (network ev) (storage_client client)
                   (configs_endpoint client tid)
                   (Some (transformation_body ev name description payload)))
          (\<lambda>raw.
        bind_io (get_component_details ev client tid) (\<lambda>component.
        bind_io (lift_io (call_kwargs raw
                   [(''component_id'', JStr tid), (''component'', component)])) (\<lambda>kwargs.
        bind_io (lift_io (ComponentConfiguration_new ev kwargs)) (\<lambda>cfg.
        bind_io (emit (LogInfo (''Created new transformation \"'' @ tid
                   @ ''\" with configuration id \"''
                   @ configuration_id_text cfg @ ''\".''))) (\<lambda>_.
        return_io cfg))))))
       (\<lambda>e. bind_io (emit (LogException
                 ''Error when creating new transformation configuration: '' e)) (\<lambda>_.
             raise_io e))
       (w @ transformation_log_prefix d tid name)"
    using assms
    by (simp add: create_sql_transformation_def transformation_log_prefix_def
        transformation_body_def bind_get_sql_dialect bind_lift_Inr bind_emit)
  show ?thesis
    unfolding pre try_post_compose
    by (simp add: Let_def transformation_post_def split: sum.splits)
qed


lemma resolve_script_requests:
  "resolve_script ev name description user_query script w = (r, w0) \<Longrightarrow>
     http_requests w0 = http_requests w"
  by (auto simp: resolve_script_def generate_data_app_script_def ctx_generate_def io_simps
      http_requests_append split: if_splits sum.splits json.splits)

lemma sql_post_failure:
  assumes "sql_dialect ev w ctx = Inr d"
    and "transformation_id_from_dialect ev d = Inr tid"
    and "transformation_configuration ev stmts name tables = Inr payload"
    and "from_state (session_state ctx) = Inr client"
  shows "fst (service_post (network ev) (storage_client client) (configs_endpoint client tid)
              (Some (transformation_body ev name description payload))
              (w @ transformation_log_prefix d tid name)) = Inl e \<Longrightarrow>
         create_sql_transformation ev ctx name description stmts tables w
           = (Inl e, w @ transformation_log_prefix d tid name
                @ [Http (transformation_post ev client tid name description payload),
                   LogException ''Error when creating new transformation configuration: '' e])"
    and "fst (service_post (network ev) (storage_client client) (configs_endpoint client tid)
              (Some (transformation_body ev name description payload))
              (w @ transformation_log_prefix d tid name)) = Inr raw
          \<and> (case component_details ev
                     (w @ transformation_log_prefix d tid name
                        @ [Http (transformation_post ev client tid name description payload)])
                     client tid of
                Inl x \<Rightarrow> Inl x
              | Inr component \<Rightarrow>
                  (case call_kwargs raw [(''component_id'', JStr tid), (''component'', component)] of
                     Inl x \<Rightarrow> Inl x
                   | Inr kwargs \<Rightarrow> ComponentConfiguration_new ev kwargs)) = Inl e \<Longrightarrow>
         create_sql_transformation ev ctx name description stmts tables w
           = (Inl e, w @ transformation_log_prefix d tid name
                @ [Http (transformation_post ev client tid name description payload),
                   ComponentLookup tid,
                   LogException ''Error when creating new transformation configuration: '' e])"
    and "http_requests (snd (create_sql_transformation ev ctx name description stmts tables w))
           = http_requests w @ [transformation_post ev client tid name description payload]"
  unfolding create_sql_transformation_run[OF assms]
  by (auto simp: Let_def http_requests_append transformation_log_prefix_def split: sum.splits)

lemma data_app_post_failure:
  assumes "from_state (session_state ctx) = Inr client"
    and "resolve_script ev name description user_query script w = (Inr s', w0)"
    and "DataApp_new ev (data_app_kwargs slug s' app_size auto sc) = Inr da"
  shows "fst (service_post (network ev) (storage_client client)
              (configs_endpoint client ''keboola.app-data-app'')
              (Some (data_app_configuration ev name description slug s' app_size auto da)) w0)
           = Inl e \<Longrightarrow>
         create_data_app ev ctx name description slug user_query script app_size auto sc w
           = (Inl e, w0 @ [Http (data_app_post ev client name description slug s' app_size auto da),
                           LogException ''Error when creating new data app configuration: '' e])"
    and "fst (service_post (network ev) (storage_client client)
              (configs_endpoint client ''keboola.app-data-app'')
              (Some (data_app_configuration ev name description slug s' app_size auto da)) w0)
           = Inr raw
          \<and> (case component_details ev
                     (w0 @ [Http (data_app_post ev client name description slug s' app_size auto da)])
                     client ''keboola.app-data-app'' of
                Inl x \<Rightarrow> Inl x
              | Inr component \<Rightarrow>
                  (case call_kwargs raw [(''component_id'', JStr ''keboola.app-data-app''),
                                         (''component'', component), (''data_app'', da),
                                         (''authorization'', data_app_authorization)] of
                     Inl x \<Rightarrow> Inl x
                   | Inr kwargs \<Rightarrow> DataAppConfiguration_new ev kwargs)) = Inl e \<Longrightarrow>
         create_data_app ev ctx name description slug user_query script app_size auto sc w
           = (Inl e, w0 @ [Http (data_app_post ev client name description slug s' app_size auto da),
                           ComponentLookup ''keboola.app-data-app'',
                           LogException ''Error when creating new data app configuration: '' e])"
    and "http_requests (snd (create_data_app ev ctx name description slug user_query script
                               app_size auto sc w))
           = http_requests w @ [data_app_post ev client name description slug s' app_size auto da]"
  unfolding create_data_app_run[OF assms]
  using resolve_script_requests[OF assms(2)]
  by (auto simp: Let_def http_requests_append split: sum.splits)

text \<open>
  C7. Once \<open>create_sql_transformation\<close> (after the dialect, the transformation id, the
  payload and the client are obtained) or \<open>create_data_app\<close> (after the client, the script
  and the \<open>DataApp\<close> model are obtained) reaches its \<open>try\<close> block: when the POST fails with
  \<open>e\<close>, the operation records the request and the log record of \<open>e\<close> and fails with the
  same \<open>e\<close>; when the POST succeeds and the composition of the result (component look-up,
  keyword arguments, model validation) fails with \<open>e\<close>, the operation records the request,
  the look-up and the log record of \<open>e\<close>, and fails with the same \<open>e\<close>. In every outcome
  the only HTTP request the operation sends is that POST: nothing is sent to undo a
  creation that succeeded remotely.
\<close>

theorem create_failures_logged_and_reraised:
  "(sql_dialect ev w ctx = Inr dialect
      \<and> transformation_id_from_dialect ev dialect = Inr tid
      \<and> transformation_configuration ev sql_statements name created_table_names = Inr payload
      \<and> from_state (session_state ctx) = Inr client \<longrightarrow>
    (fst (service_post (network ev) (storage_client client) (configs_endpoint client tid)
            (Some (transformation_body ev name description payload))
            (w @ transformation_log_prefix dialect tid name)) = Inl e \<longrightarrow>
       create_sql_transformation ev ctx name description sql_statements created_table_names w
         = (Inl e, w @ transformation_log_prefix dialect tid name
              @ [Http (transformation_post ev client tid name description payload),
                 LogException ''Error when creating new transformation configuration: '' e]))
  \<and> (fst (service_post (network ev) (storage_client client) (configs_endpoint client tid)
            (Some (transformation_body ev name description payload))
            (w @ transformation_log_prefix dialect tid name)) = Inr raw
        \<and> (case component_details ev
                   (w @ transformation_log_prefix dialect tid name
                      @ [Http (transformation_post ev client tid name description payload)])
                   client tid of
              Inl x \<Rightarrow> Inl x
            | Inr component \<Rightarrow>
                (case call_kwargs raw [(''component_id'', JStr tid), (''component'', component)] of
                   Inl x \<Rightarrow> Inl x
                 | Inr kwargs \<Rightarrow> ComponentConfiguration_new ev kwargs)) = Inl e \<longrightarrow>
       create_sql_transformation ev ctx name description sql_statements created_table_names w
         = (Inl e, w @ transformation_log_prefix dialect tid name
              @ [Http (transformation_post ev client tid name description payload),
                 ComponentLookup tid,
                 LogException ''Error when creating new transformation configuration: '' e]))
  \<and> http_requests (snd (create_sql_transformation ev ctx name description sql_statements
                            created_table_names w))
       = http_requests w @ [transformation_post ev client tid name description payload])
 \<and> (from_state (session_state ctx) = Inr client
      \<and> resolve_script ev name description user_query script w = (Inr script', w0)
      \<and> DataApp_new ev (data_app_kwargs slug script' app_size auto_suspend_after_seconds
                           streamlit_config) = Inr data_app \<longrightarrow>
    (fst (service_post (network ev) (storage_client client)
            (configs_endpoint client ''keboola.app-data-app'')
            (Some (data_app_configuration ev name description slug script' app_size
                     auto_suspend_after_seconds data_app)) w0) = Inl e \<longrightarrow>
       create_data_app ev ctx name description slug user_query script app_size
           auto_suspend_after_seconds streamlit_config w
         = (Inl e, w0 @ [Http (data_app_post ev client name description slug script' app_size
                                 auto_suspend_after_seconds data_app),
                         LogException ''Error when creating new data app configuration: '' e]))
  \<and> (fst (service_post (network ev) (storage_client client)
            (configs_endpoint client ''keboola.app-data-app'')
            (Some (data_app_configuration ev name description slug script' app_size
                     auto_suspend_after_seconds data_app)) w0) = Inr raw
        \<and> (case component_details ev
                   (w0 @ [Http (data_app_post ev client name description slug script' app_size
                                  auto_suspend_after_seconds data_app)])
                   client ''keboola.app-data-app'' of
              Inl x \<Rightarrow> Inl x
            | Inr component \<Rightarrow>
                (case call_kwargs raw [(''component_id'', JStr ''keboola.app-data-app''),
                                       (''component'', component), (''data_app'', data_app),
                                       (''authorization'', data_app_authorization)] of
                   Inl x \<Rightarrow> Inl x
                 | Inr kwargs \<Rightarrow> DataAppConfiguration_new ev kwargs)) = Inl e \<longrightarrow>
       create_data_app ev ctx name description slug user_query script app_size
           auto_suspend_after_seconds streamlit_config w
         = (Inl e, w0 @ [Http (data_app_post ev client name description slug script' app_size
                                 auto_suspend_after_seconds data_app),
                         ComponentLookup ''keboola.app-data-app'',
                         LogException ''Error when creating new data app configuration: '' e]))
  \<and> http_requests (snd (create_data_app ev ctx name description slug user_query script app_size
                            auto_suspend_after_seconds streamlit_config w))
       = http_requests w @ [data_app_post ev client name description slug script' app_size
                              auto_suspend_after_seconds data_app])"
proof (intro conjI impI; (elim conjE)?)
  assume a: "sql_dialect ev w ctx = Inr dialect" "transformation_id_from_dialect ev dialect = Inr tid"
      "transformation_configuration ev sql_statements name created_table_names = Inr payload"
      "from_state (session_state ctx) = Inr client"
  note L = sql_post_failure[OF a, of description]
  {
    assume "fst (service_post (network ev) (storage_client client) (configs_endpoint client tid)
            (Some (transformation_body ev name description payload))
            (w @ transformation_log_prefix dialect tid name)) = Inl e"
    from L(1)[OF this]
    show "create_sql_transformation ev ctx name description sql_statements created_table_names w
         = (Inl e, w @ transformation_log_prefix dialect tid name
              @ [Http (transformation_post ev client tid name description payload),
                 LogException ''Error when creating new transformation configuration: '' e])" .
  next
    assume "fst (service_post (network ev) (storage_client client) (configs_endpoint client tid)
            (Some (transformation_body ev name description payload))
            (w @ transformation_log_prefix dialect tid name)) = Inr raw"
      and "(case component_details ev
                   (w @ transformation_log_prefix dialect tid name
                      @ [Http (transformation_post ev client tid name description payload)])
                   client tid of
              Inl x \<Rightarrow> Inl x
            | Inr component \<Rightarrow>
                (case call_kwargs raw [(''component_id'', JStr tid), (''component'', component)] of
                   Inl x \<Rightarrow> Inl x
                 | Inr kwargs \<Rightarrow> ComponentConfiguration_new ev kwargs)) = Inl e"
    then show "create_sql_transformation ev ctx name description sql_statements created_table_names w
         = (Inl e, w @ transformation_log_prefix dialect tid name
              @ [Http (transformation_post ev client tid name description payload),
                 ComponentLookup tid,
                 LogException ''Error when creating new transformation configuration: '' e])"
      by (intro L(2)) simp
  next
    show "http_requests (snd (create_sql_transformation ev ctx name description sql_statements
                            created_table_names w))
       = http_requests w @ [transformation_post ev client tid name description payload]"
      by (rule L(3))
  }
next
  assume b: "from_state (session_state ctx) = Inr client"
      "resolve_script ev name description user_query script w = (Inr script', w0)"
      "DataApp_new ev (data_app_kwargs slug script' app_size auto_suspend_after_seconds
                           streamlit_config) = Inr data_app"
  note M = data_app_post_failure[OF b]
  {
    assume "fst (service_post (network ev) (storage_client client)
            (configs_endpoint client ''keboola.app-data-app'')
            (Some (data_app_configuration ev name description slug script' app_size
                     auto_suspend_after_seconds data_app)) w0) = Inl e"
    from M(1)[OF this]
    show "create_data_app ev ctx name description slug user_query script app_size
           auto_suspend_after_seconds streamlit_config w
         = (Inl e, w0 @ [Http (data_app_post ev client name description slug script' app_size
                                 auto_suspend_after_seconds data_app),
                         LogException ''Error when creating new data app configuration: '' e])" .
  next
    assume "fst (service_post (network ev) (storage_client client)
            (configs_endpoint client ''keboola.app-data-app'')
            (Some (data_app_configuration ev name description slug script' app_size
                     auto_suspend_after_seconds data_app)) w0) = Inr raw"
      and "(case component_details ev
                   (w0 @ [Http (data_app_post ev client name description slug script' app_size
                                  auto_suspend_after_seconds data_app)])
                   client ''keboola.app-data-app'' of
              Inl x \<Rightarrow> Inl x
            | Inr component \<Rightarrow>
                (case call_kwargs raw [(''component_id'', JStr ''keboola.app-data-app''),
                                       (''component'', component), (''data_app'', data_app),
                                       (''authorization'', data_app_authorization)] of
                   Inl x \<Rightarrow> Inl x
                 | Inr kwargs \<Rightarrow> DataAppConfiguration_new ev kwargs)) = Inl e"
    then show "create_data_app ev ctx name description slug user_query script app_size
           auto_suspend_after_seconds streamlit_config w
         = (Inl e, w0 @ [Http (data_app_post ev client name description slug script' app_size
                                 auto_suspend_after_seconds data_app),
                         ComponentLookup ''keboola.app-data-app'',
                         LogException ''Error when creating new data app configuration: '' e])"
      by (intro M(2)) simp
  next
    show "http_requests (snd (create_data_app ev ctx name description slug user_query script app_size
                            auto_suspend_after_seconds streamlit_config w))
       = http_requests w @ [data_app_post ev client name description slug script' app_size
                              auto_suspend_after_seconds data_app]"
      by (rule M(3))
  }
qed

lemma sample_post_fails:
  "fst (service_post (network (sample_env\<lparr> network := sample_net 500 None \<rparr>)) sc endpoint body w)
     = Inl (HTTPStatusError 500 ''body'')"
  by (simp add: service_post_def raw_post_run sample_net_def sample_response_sel is_success_def)

lemma sample_post_succeeds:
  "fst (service_post (network sample_env) sc endpoint body w) = Inr (JObj [(''id'', JStr ''42'')])"
  by (simp add: service_post_def raw_post_run sample_network sample_response_sel is_success_def
      response_json_def)

text \<open>
  Both operations against an upstream that answers the POST with 500, and against one that
  accepts the POST while the component look-up fails afterwards.
\<close>

theorem create_failures_logged_and_reraised_witness:
  "create_sql_transformation (sample_env\<lparr> network := sample_net 500 None \<rparr>) sample_ctx
       ''demo'' ''d'' [''CREATE TABLE t1 AS SELECT 1''] [''t1''] []
     = (Inl (HTTPStatusError 500 ''body''),
        transformation_log_prefix ''Snowflake'' ''keboola.snowflake-transformation'' ''demo''
          @ [Http (transformation_post (sample_env\<lparr> network := sample_net 500 None \<rparr>)
                     sample_client ''keboola.snowflake-transformation'' ''demo'' ''d''
                     (JObj [(''statements'', JList [JStr ''CREATE TABLE t1 AS SELECT 1''])])),
             LogException ''Error when creating new transformation configuration: ''
               (HTTPStatusError 500 ''body'')])
 \<and> create_sql_transformation (sample_env\<lparr> component_details := failing_lookup \<rparr>) sample_ctx
       ''demo'' ''d'' [''CREATE TABLE t1 AS SELECT 1''] [''t1''] []
     = (Inl (HTTPStatusError 404 ''component not found''),
        transformation_log_prefix ''Snowflake'' ''keboola.snowflake-transformation'' ''demo''
          @ [Http (transformation_post (sample_env\<lparr> component_details := failing_lookup \<rparr>)
                     sample_client ''keboola.snowflake-transformation'' ''demo'' ''d''
                     (JObj [(''statements'', JList [JStr ''CREATE TABLE t1 AS SELECT 1''])])),
             ComponentLookup ''keboola.snowflake-transformation'',
             LogException ''Error when creating new transformation configuration: ''
               (HTTPStatusError 404 ''component not found'')])
 \<and> map req_method (http_requests (snd
       (create_sql_transformation (sample_env\<lparr> component_details := failing_lookup \<rparr>) sample_ctx
          ''demo'' ''d'' [''CREATE TABLE t1 AS SELECT 1''] [''t1''] [])))
     = [POST]
 \<and> create_data_app (sample_env\<lparr> network := sample_net 500 None \<rparr>) sample_ctx
       ''Sales'' ''...'' ''sales-app'' None (Some [''print(1)'']) ''tiny'' 900 None []
     = (Inl (HTTPStatusError 500 ''body''),
        [Http (data_app_post (sample_env\<lparr> network := sample_net 500 None \<rparr>) sample_client
                 ''Sales'' ''...'' ''sales-app'' [''print(1)''] ''tiny'' 900
                 (JObj (data_app_kwargs ''sales-app'' [''print(1)''] ''tiny'' 900 None))),
         LogException ''Error when creating new data app configuration: ''
           (HTTPStatusError 500 ''body'')])
 \<and> create_data_app (sample_env\<lparr> component_details := failing_lookup \<rparr>) sample_ctx
       ''Sales'' ''...'' ''sales-app'' None (Some [''print(1)'']) ''tiny'' 900 None []
     = (Inl (HTTPStatusError 404 ''component not found''),
        [Http (data_app_post (sample_env\<lparr> component_details := failing_lookup \<rparr>) sample_client
                 ''Sales'' ''...'' ''sales-app'' [''print(1)''] ''tiny'' 900
                 (JObj (data_app_kwargs ''sales-app'' [''print(1)''] ''tiny'' 900 None))),
         ComponentLookup ''keboola.app-data-app'',
         LogException ''Error when creating new data app configuration: ''
           (HTTPStatusError 404 ''component not found'')])
 \<and> map req_method (http_requests (snd
       (create_data_app (sample_env\<lparr> component_details := failing_lookup \<rparr>) sample_ctx
          ''Sales'' ''...'' ''sales-app'' None (Some [''print(1)'']) ''tiny'' 900 None [])))
     = [POST]"
proof -
  let ?E1 = "sample_env\<lparr> component_details := failing_lookup \<rparr>"
  let ?E2 = "sample_env\<lparr> network := sample_net 500 None \<rparr>"
  let ?tid = "''keboola.snowflake-transformation''"
  let ?payload = "JObj [(''statements'', JList [JStr ''CREATE TABLE t1 AS SELECT 1''])]"
  let ?da = "JObj (data_app_kwargs ''sales-app'' [''print(1)''] ''tiny'' 900 None)"
  have ne: "[''print(1)''] \<noteq> []" by simp
  have pre1: "sql_dialect ?E1 [] sample_ctx = Inr ''Snowflake''"
      "transformation_id_from_dialect ?E1 ''Snowflake'' = Inr ?tid"
      "transformation_configuration ?E1 [''CREATE TABLE t1 AS SELECT 1''] ''demo'' [''t1'']
         = Inr ?payload"
      "DataApp_new ?E1 (data_app_kwargs ''sales-app'' [''print(1)''] ''tiny'' 900 None) = Inr ?da"
    by (simp_all add: sample_env_simps)
  have pre2: "sql_dialect ?E2 [] sample_ctx = Inr ''Snowflake''"
      "transformation_id_from_dialect ?E2 ''Snowflake'' = Inr ?tid"
      "transformation_configuration ?E2 [''CREATE TABLE t1 AS SELECT 1''] ''demo'' [''t1'']
         = Inr ?payload"
      "DataApp_new ?E2 (data_app_kwargs ''sales-app'' [''print(1)''] ''tiny'' 900 None) = Inr ?da"
    by (simp_all add: sample_env_simps)
  note A = create_failures_logged_and_reraised[where ev="?E2" and w="[]" and ctx=sample_ctx
      and dialect="''Snowflake''" and tid="?tid" and name="''demo''" and description="''d''"
      and sql_statements="[''CREATE TABLE t1 AS SELECT 1'']" and created_table_names="[''t1'']"
      and payload="?payload" and client=sample_client and e="HTTPStatusError 500 ''body''",
      THEN conjunct1, rule_format, OF conjI[OF pre2(1) conjI[OF pre2(2) conjI[OF pre2(3) sample_from_state]]],
      THEN conjunct1, rule_format, OF sample_post_fails]
  note B = create_failures_logged_and_reraised[where ev="?E1" and w="[]" and ctx=sample_ctx
      and dialect="''Snowflake''" and tid="?tid" and name="''demo''" and description="''d''"
      and sql_statements="[''CREATE TABLE t1 AS SELECT 1'']" and created_table_names="[''t1'']"
      and payload="?payload" and client=sample_client
      and raw="JObj [(''id'', JStr ''42'')]"
      and e="HTTPStatusError 404 ''component not found''",
      THEN conjunct1, rule_format, OF conjI[OF pre1(1) conjI[OF pre1(2) conjI[OF pre1(3) sample_from_state]]]]
  note C = create_failures_logged_and_reraised[where ev="?E2" and w="[]" and ctx=sample_ctx
      and name="''Sales''" and description="''...''" and slug="''sales-app''" and user_query=None
      and script="Some [''print(1)'']" and script'="[''print(1)'']" and w0="[]"
      and app_size="''tiny''" and auto_suspend_after_seconds=900 and streamlit_config=None
      and data_app="?da" and client=sample_client and e="HTTPStatusError 500 ''body''",
      THEN conjunct2, rule_format,
      OF conjI[OF sample_from_state conjI[OF resolve_script_supplied[OF ne] pre2(4)]],
      THEN conjunct1, rule_format, OF sample_post_fails]
  note D = create_failures_logged_and_reraised[where ev="?E1" and w="[]" and ctx=sample_ctx
      and name="''Sales''" and description="''...''" and slug="''sales-app''" and user_query=None
      and script="Some [''print(1)'']" and script'="[''print(1)'']" and w0="[]"
      and app_size="''tiny''" and auto_suspend_after_seconds=900 and streamlit_config=None
      and data_app="?da" and client=sample_client
      and raw="JObj [(''id'', JStr ''42'')]"
      and e="HTTPStatusError 404 ''component not found''",
      THEN conjunct2, rule_format,
      OF conjI[OF sample_from_state conjI[OF resolve_script_supplied[OF ne] pre1(4)]]]
  have b2: "create_sql_transformation ?E1 sample_ctx
       ''demo'' ''d'' [''CREATE TABLE t1 AS SELECT 1''] [''t1''] []
     = (Inl (HTTPStatusError 404 ''component not found''),
        transformation_log_prefix ''Snowflake'' ?tid ''demo''
          @ [Http (transformation_post ?E1 sample_client ?tid ''demo'' ''d'' ?payload),
             ComponentLookup ?tid,
             LogException ''Error when creating new transformation configuration: ''
               (HTTPStatusError 404 ''component not found'')])"
    using B by (simp add: sample_post_succeeds failing_lookup_def)
  have b3: "http_requests (snd (create_sql_transformation ?E1 sample_ctx
          ''demo'' ''d'' [''CREATE TABLE t1 AS SELECT 1''] [''t1''] []))
     = [transformation_post ?E1 sample_client ?tid ''demo'' ''d'' ?payload]"
    using B by simp
  have d2: "create_data_app ?E1 sample_ctx
       ''Sales'' ''...'' ''sales-app'' None (Some [''print(1)'']) ''tiny'' 900 None []
     = (Inl (HTTPStatusError 404 ''component not found''),
        [Http (data_app_post ?E1 sample_client
                 ''Sales'' ''...'' ''sales-app'' [''print(1)''] ''tiny'' 900 ?da),
         ComponentLookup ''keboola.app-data-app'',
         LogException ''Error when creating new data app configuration: ''
           (HTTPStatusError 404 ''component not found'')])"
    using D by (simp add: sample_post_succeeds failing_lookup_def)
  have d3: "http_requests (snd (create_data_app ?E1 sample_ctx
          ''Sales'' ''...'' ''sales-app'' None (Some [''print(1)'']) ''tiny'' 900 None []))
     = [data_app_post ?E1 sample_client
                 ''Sales'' ''...'' ''sales-app'' [''print(1)''] ''tiny'' 900 ?da]"
    using D by simp
  show ?thesis
    unfolding b3 d3 using A b2 C d2
    by (simp add: transformation_post_def data_app_post_sel sent_request_def)
qed

end
